theory Spec2Isabelle
  imports Complex_Main "HOL-Library.AList" "HOL-Library.Multiset"
begin

section \<open>Python values\<close>

text \<open>
  A Python \<open>str\<close> is a sequence of Unicode code points; it is modelled as a list of
  natural numbers, so that slicing and \<open>len\<close> count what Python counts and the rupee
  and euro signs of the pattern tables (code points 8377 and 8364) are ordinary
  characters.  \<open>str ''abc''\<close> embeds an ASCII literal.
\<close>

type_synonym pystr = "nat list"

definition str :: "string \<Rightarrow> pystr" where
  "str s = map of_char s"

text \<open>An exception is its class name and the text that \<open>str(e)\<close> gives.\<close>

datatype exn = Exn (exn_class: string) (exn_str: pystr)

text \<open>
  \<open>round(x, n)\<close> on exact values: round half to even at the \<open>n\<close>-th decimal.  The
  progress values of the scheduler, the statistics of the classifier and the amounts
  of the extractor are taken as exact real numbers.
\<close>

definition round_half_even :: "real \<Rightarrow> int" where
  "round_half_even x =
     (let f = \<lfloor>x\<rfloor>; d = x - of_int f
      in if d < 1 / 2 then f else if 1 / 2 < d then f + 1
         else if even f then f else f + 1)"

definition py_round :: "real \<Rightarrow> nat \<Rightarrow> real" where
  "py_round x n = of_int (round_half_even (x * 10 ^ n)) / 10 ^ n"

text \<open>\<open>needle in haystack\<close> on strings, and \<open>s.replace(c, '')\<close> for one character.\<close>

fun starts_with :: "pystr \<Rightarrow> pystr \<Rightarrow> bool" where
  "starts_with [] t = True"
| "starts_with (c # cs) [] = False"
| "starts_with (c # cs) (d # ds) = (if c = d then starts_with cs ds else False)"

fun contains :: "pystr \<Rightarrow> pystr \<Rightarrow> bool" where
  "contains needle [] = (needle = [])"
| "contains needle (d # ds) =
     (if starts_with needle (d # ds) then True else contains needle ds)"

definition remove_char :: "nat \<Rightarrow> pystr \<Rightarrow> pystr" where
  "remove_char c s = filter (\<lambda>x. x \<noteq> c) s"

subsection \<open>Arithmetic\<close>

text \<open>
  The figures of the aggregator are computed in Python's arithmetic: binary floating
  point, and integers that become floats when they meet one.  A number is kept as
  its value, a real.  The operations that the aggregator applies to numbers are a
  parameter of its model, so that what is proved of it holds whatever they give:
  the float that a decimal literal of the source denotes, \<open>x + y\<close>, \<open>x - y\<close>,
  \<open>x / y\<close>, \<open>x * y\<close> and \<open>round(x, n)\<close>.
\<close>

record arith =
  ar_literal :: "real \<Rightarrow> real"
  ar_add :: "real \<Rightarrow> real \<Rightarrow> real"
  ar_sub :: "real \<Rightarrow> real \<Rightarrow> real"
  ar_truediv :: "real \<Rightarrow> real \<Rightarrow> real"
  ar_mul :: "real \<Rightarrow> real \<Rightarrow> real"
  ar_round :: "real \<Rightarrow> nat \<Rightarrow> real"

subsection \<open>A reference implementation of the arithmetic\<close>

text \<open>
  Binary floating point with 53 bits, rounding to nearest, ties to even, for values
  within the range of the finite doubles and integers below \<open>2 ^ 53\<close> in absolute
  value.  \<open>bit_length\<close> is \<open>int.bit_length\<close>; \<open>exponent x\<close> is the integer \<open>e\<close> with
  \<open>2 ^ e \<le> |x| < 2 ^ (e + 1)\<close>.  \<open>double x\<close> is the double nearest to \<open>x\<close>: the
  multiple of the spacing of the doubles around \<open>x\<close> (which is \<open>2 ^ (e - 52)\<close>, and
  \<open>2 ^ -1074\<close> in the subnormal range) that is nearest to \<open>x\<close>.  An operation gives
  the double nearest to its exact result; \<open>round(x, n)\<close> rounds the exact value of
  \<open>x\<close> half to even at the \<open>n\<close>-th decimal and gives the double nearest to that.
  The implementation is used for sample inputs only.
\<close>

fun bit_length :: "nat \<Rightarrow> nat" where
  "bit_length n = (if n = 0 then 0 else Suc (bit_length (n div 2)))"

declare bit_length.simps [simp del]

definition exponent :: "real \<Rightarrow> int" where
  "exponent x =
     (if 1 \<le> \<bar>x\<bar> then int (bit_length (nat \<lfloor>\<bar>x\<bar>\<rfloor>)) - 1
      else - int (bit_length (nat (\<lceil>1 / \<bar>x\<bar>\<rceil> - 1))))"

definition double :: "real \<Rightarrow> real" where
  "double x =
     (if x = 0 then 0
      else (let e = max (exponent x - 52) (- 1074)
            in of_int (round_half_even (x / 2 powi e)) * 2 powi e))"

definition double_arith :: arith where
  "double_arith =
     \<lparr> ar_literal = double,
       ar_add = (\<lambda>x y. double (x + y)),
       ar_sub = (\<lambda>x y. double (x - y)),
       ar_truediv = (\<lambda>x y. double (x / y)),
       ar_mul = (\<lambda>x y. double (x * y)),
       ar_round = (\<lambda>x n. double (py_round x n)) \<rparr>"

section \<open>Regular expressions of the pattern tables\<close>

text \<open>
  The patterns of the source are Python regular expressions.  They are kept as
  syntax trees; their meaning is that of Python's \<open>re\<close> module, which is not part
  of the repository and enters the model as a parameter (\<open>pylib\<close> below).
  \<open>Group\<close> is a capturing group; non-capturing groups leave no node.
\<close>

datatype regex =
    Lit string
  | AnyChar
  | Class bool "(nat \<times> nat) list"
  | Digit
  | Space
  | WordB
  | Seq regex regex
  | Alt regex regex
  | Star regex
  | LazyStar regex
  | Plus regex
  | Opt regex
  | Repeat nat regex
  | NotAhead regex
  | Group regex

fun seqs :: "regex list \<Rightarrow> regex" where
  "seqs [] = Lit []"
| "seqs [r] = r"
| "seqs (r # rs) = Seq r (seqs rs)"

fun alts :: "regex list \<Rightarrow> regex" where
  "alts [] = Class False []"
| "alts [r] = r"
| "alts (r # rs) = Alt r (alts rs)"

text \<open>\<open>dots [a, b, c]\<close> is the pattern \<open>a.*b.*c\<close>.\<close>

fun dots :: "string list \<Rightarrow> regex" where
  "dots [] = Lit []"
| "dots [s] = Lit s"
| "dots (s # ss) = Seq (Lit s) (Seq (Star AnyChar) (dots ss))"

text \<open>\<open>word_of rs\<close> is \<open>\b(r1|r2|...)\b\<close>.\<close>

definition word_of :: "regex list \<Rightarrow> regex" where
  "word_of rs = Seq WordB (Seq (Group (alts rs)) WordB)"

text \<open>A currency sign (rupee, dollar or euro, by code point), blanks and digits.\<close>

definition currency_amount :: regex where
  "currency_amount =
     Seq (Class False [(8377, 8377), (36, 36), (8364, 8364)]) (Seq (Star Space) (Plus Digit))"

text \<open>\<open>(?!.*card)\<close>\<close>

definition unless_card :: regex where
  "unless_card = NotAhead (Seq (Star AnyChar) (Lit ''card''))"

text \<open>
  The library functions the source calls: \<open>str.lower\<close>, \<open>re.search\<close> (the match
  object is its whole match and its group 1, \<open>None\<close> when nothing matches),
  \<open>re.findall\<close> and \<open>float\<close> (\<open>None\<close> for \<open>ValueError\<close>).  The Boolean is the
  \<open>re.IGNORECASE\<close> flag.
\<close>

record pylib =
  str_lower :: "pystr \<Rightarrow> pystr"
  re_search :: "regex \<Rightarrow> bool \<Rightarrow> pystr \<Rightarrow> (pystr \<times> pystr option) option"
  re_findall :: "regex \<Rightarrow> bool \<Rightarrow> pystr \<Rightarrow> pystr list"
  py_float :: "pystr \<Rightarrow> real option"

subsection \<open>A reference implementation of the library on ASCII\<close>

text \<open>
  A backtracking matcher for the constructs above, used to run the model on sample
  inputs.  A matcher state is the character before the current position, the text
  matched so far (in reverse), the text ahead and the text of the capturing group.
  \<open>rx_match r ic\<close> maps a state to the states after a match of \<open>r\<close>, in the order
  in which the backtracking engine tries them.  The classes \<open>\d\<close>, \<open>\s\<close>, \<open>\w\<close> and
  case folding are those of ASCII.
\<close>

definition is_digit :: "nat \<Rightarrow> bool" where
  "is_digit c = (48 \<le> c \<and> c \<le> 57)"

definition is_space :: "nat \<Rightarrow> bool" where
  "is_space c = (c = 32 \<or> (9 \<le> c \<and> c \<le> 13))"

definition is_upper :: "nat \<Rightarrow> bool" where
  "is_upper c = (65 \<le> c \<and> c \<le> 90)"

definition is_word :: "nat \<Rightarrow> bool" where
  "is_word c = (is_digit c \<or> is_upper c \<or> (97 \<le> c \<and> c \<le> 122) \<or> c = 95)"

definition lower_char :: "nat \<Rightarrow> nat" where
  "lower_char c = (if is_upper c then c + 32 else c)"

definition ascii_lower :: "pystr \<Rightarrow> pystr" where
  "ascii_lower s = map lower_char s"

definition same_char :: "bool \<Rightarrow> nat \<Rightarrow> nat \<Rightarrow> bool" where
  "same_char ic a b = (if ic then lower_char a = lower_char b else a = b)"

fun in_ranges :: "nat \<Rightarrow> (nat \<times> nat) list \<Rightarrow> bool" where
  "in_ranges c [] = False"
| "in_ranges c ((lo, hi) # rs) = (if lo \<le> c \<and> c \<le> hi then True else in_ranges c rs)"

definition in_class :: "bool \<Rightarrow> (nat \<times> nat) list \<Rightarrow> nat \<Rightarrow> bool" where
  "in_class ic rs c =
     (if ic then in_ranges c rs \<or> in_ranges (lower_char c) rs
                 \<or> (97 \<le> c \<and> c \<le> 122 \<and> in_ranges (c - 32) rs)
      else in_ranges c rs)"

type_synonym mstate = "nat option \<times> pystr \<times> pystr \<times> pystr option"

type_synonym matcher = "mstate \<Rightarrow> mstate list"

fun one_char :: "(nat \<Rightarrow> bool) \<Rightarrow> matcher" where
  "one_char P (prev, taken, [], cap) = []"
| "one_char P (prev, taken, c # rest, cap) =
     (if P c then [(Some c, c # taken, rest, cap)] else [])"

fun lit_match :: "bool \<Rightarrow> pystr \<Rightarrow> matcher" where
  "lit_match ic [] st = [st]"
| "lit_match ic (c # cs) (prev, taken, [], cap) = []"
| "lit_match ic (c # cs) (prev, taken, d # rest, cap) =
     (if same_char ic c d then lit_match ic cs (Some d, d # taken, rest, cap) else [])"

fun word_boundary :: matcher where
  "word_boundary (prev, taken, rest, cap) =
     (if (case prev of None \<Rightarrow> False | Some c \<Rightarrow> is_word c)
         \<noteq> (case rest of [] \<Rightarrow> False | c # _ \<Rightarrow> is_word c)
      then [(prev, taken, rest, cap)] else [])"

fun each :: "matcher \<Rightarrow> mstate list \<Rightarrow> mstate list" where
  "each m [] = []"
| "each m (st # sts) = m st @ each m sts"

definition then_match :: "matcher \<Rightarrow> matcher \<Rightarrow> matcher" where
  "then_match m1 m2 st = each m2 (m1 st)"

fun ahead :: "mstate \<Rightarrow> nat" where
  "ahead (prev, taken, rest, cap) = length rest"

text \<open>
  Repetition: an iteration that consumes nothing is not repeated, so at most as
  many iterations happen as characters are ahead; \<open>fuel\<close> counts them down.
\<close>

fun consuming :: "nat \<Rightarrow> mstate list \<Rightarrow> mstate list" where
  "consuming n [] = []"
| "consuming n (st # sts) = (if ahead st < n then st # consuming n sts else consuming n sts)"

primrec star_match :: "bool \<Rightarrow> matcher \<Rightarrow> nat \<Rightarrow> matcher" where
  "star_match greedy m 0 = (\<lambda>st. [st])"
| "star_match greedy m (Suc fuel) =
     (\<lambda>st. if greedy
           then each (star_match greedy m fuel) (consuming (ahead st) (m st)) @ [st]
           else st # each (star_match greedy m fuel) (consuming (ahead st) (m st)))"

primrec repeat_match :: "matcher \<Rightarrow> nat \<Rightarrow> matcher" where
  "repeat_match m 0 = (\<lambda>st. [st])"
| "repeat_match m (Suc k) = then_match m (repeat_match m k)"

fun group_open :: "mstate \<Rightarrow> mstate" where
  "group_open (prev, taken, rest, cap) = (prev, [], rest, cap)"

fun group_close :: "pystr \<Rightarrow> mstate list \<Rightarrow> mstate list" where
  "group_close outer [] = []"
| "group_close outer ((prev, taken, rest, cap) # sts) =
     (prev, taken @ outer, rest, Some (rev taken)) # group_close outer sts"

fun taken_of :: "mstate \<Rightarrow> pystr" where
  "taken_of (prev, taken, rest, cap) = taken"

primrec rx_match :: "regex \<Rightarrow> bool \<Rightarrow> matcher" where
  "rx_match (Lit s) ic = lit_match ic (str s)"
| "rx_match AnyChar ic = one_char (\<lambda>c. c \<noteq> 10)"
| "rx_match (Class neg rs) ic = one_char (\<lambda>c. in_class ic rs c \<noteq> neg)"
| "rx_match Digit ic = one_char is_digit"
| "rx_match Space ic = one_char is_space"
| "rx_match WordB ic = word_boundary"
| "rx_match (Seq r1 r2) ic = then_match (rx_match r1 ic) (rx_match r2 ic)"
| "rx_match (Alt r1 r2) ic = (\<lambda>st. rx_match r1 ic st @ rx_match r2 ic st)"
| "rx_match (Star r) ic = (\<lambda>st. star_match True (rx_match r ic) (ahead st) st)"
| "rx_match (LazyStar r) ic = (\<lambda>st. star_match False (rx_match r ic) (ahead st) st)"
| "rx_match (Plus r) ic =
     then_match (rx_match r ic) (\<lambda>st. star_match True (rx_match r ic) (ahead st) st)"
| "rx_match (Opt r) ic = (\<lambda>st. rx_match r ic st @ [st])"
| "rx_match (Repeat k r) ic = repeat_match (rx_match r ic) k"
| "rx_match (NotAhead r) ic = (\<lambda>st. if rx_match r ic st = [] then [st] else [])"
| "rx_match (Group r) ic = (\<lambda>st. group_close (taken_of st) (rx_match r ic (group_open st)))"

text \<open>\<open>re.search\<close>: the first position, from the left, where the pattern matches.\<close>

fun first_match :: "mstate list \<Rightarrow> (pystr \<times> pystr option) option" where
  "first_match [] = None"
| "first_match ((prev, taken, rest, cap) # sts) = Some (rev taken, cap)"

fun search_from :: "matcher \<Rightarrow> nat option \<Rightarrow> pystr \<Rightarrow> (pystr \<times> pystr option) option" where
  "search_from m prev [] = first_match (m (prev, [], [], None))"
| "search_from m prev (x # xs) =
     (case first_match (m (prev, [], x # xs, None)) of
        Some found \<Rightarrow> Some found
      | None \<Rightarrow> search_from m (Some x) xs)"

definition rx_search :: "regex \<Rightarrow> bool \<Rightarrow> pystr \<Rightarrow> (pystr \<times> pystr option) option" where
  "rx_search r ic text = search_from (rx_match r ic) None text"

text \<open>
  \<open>re.findall\<close> for a pattern with at most one group: the non-overlapping matches
  from the left; each gives its group, or the whole match when there is no group.
\<close>

primrec has_group :: "regex \<Rightarrow> bool" where
  "has_group (Lit s) = False"
| "has_group AnyChar = False"
| "has_group (Class neg rs) = False"
| "has_group Digit = False"
| "has_group Space = False"
| "has_group WordB = False"
| "has_group (Seq r1 r2) = (has_group r1 \<or> has_group r2)"
| "has_group (Alt r1 r2) = (has_group r1 \<or> has_group r2)"
| "has_group (Star r) = has_group r"
| "has_group (LazyStar r) = has_group r"
| "has_group (Plus r) = has_group r"
| "has_group (Opt r) = has_group r"
| "has_group (Repeat k r) = has_group r"
| "has_group (NotAhead r) = has_group r"
| "has_group (Group r) = True"

definition found_item :: "bool \<Rightarrow> pystr \<Rightarrow> pystr option \<Rightarrow> pystr" where
  "found_item grouped taken cap =
     (if grouped then (case cap of None \<Rightarrow> [] | Some g \<Rightarrow> g) else rev taken)"

primrec findall_from :: "nat \<Rightarrow> bool \<Rightarrow> matcher \<Rightarrow> nat option \<Rightarrow> pystr \<Rightarrow> pystr list" where
  "findall_from 0 grouped m prev text = []"
| "findall_from (Suc fuel) grouped m prev text =
     (case m (prev, [], text, None) of
        (prev', taken, rest, cap) # _ \<Rightarrow>
          found_item grouped taken cap #
            (if taken \<noteq> [] then findall_from fuel grouped m prev' rest
             else (case text of [] \<Rightarrow> []
                   | x # xs \<Rightarrow> findall_from fuel grouped m (Some x) xs))
      | [] \<Rightarrow>
          (case text of [] \<Rightarrow> []
           | x # xs \<Rightarrow> findall_from fuel grouped m (Some x) xs))"

definition rx_findall :: "regex \<Rightarrow> bool \<Rightarrow> pystr \<Rightarrow> pystr list" where
  "rx_findall r ic text =
     findall_from (Suc (length text)) (has_group r) (rx_match r ic) None text"

text \<open>\<open>float\<close> on a decimal numeral: digits, then optionally a point and digits.\<close>

fun digits_value :: "pystr \<Rightarrow> nat \<Rightarrow> nat" where
  "digits_value [] acc = acc"
| "digits_value (c # cs) acc = digits_value cs (10 * acc + (c - 48))"

definition decimal_float :: "pystr \<Rightarrow> real option" where
  "decimal_float s =
     (let ip = takeWhile is_digit s; rest = dropWhile is_digit s
      in case rest of
           [] \<Rightarrow> if ip = [] then None else Some (real (digits_value ip 0))
         | c # fp \<Rightarrow>
             if c = 46 \<and> list_all is_digit fp \<and> (ip \<noteq> [] \<or> fp \<noteq> [])
             then Some (real (digits_value ip 0) + real (digits_value fp 0) / 10 ^ length fp)
             else None)"

definition ascii_lib :: pylib where
  "ascii_lib = \<lparr> str_lower = ascii_lower, re_search = rx_search,
                 re_findall = rx_findall, py_float = decimal_float \<rparr>"

section \<open>Email classifier (services/email\_classifier.py)\<close>

text \<open>The parsed email: the dictionary that \<open>EmailParser.parse_email\<close> builds.\<close>

record email =
  id' :: pystr
  internalDate :: pystr
  from' :: pystr
  subject :: pystr
  bodyText :: pystr

datatype EmailRelevance = DEFINITELY_FINANCIAL | MAYBE_FINANCIAL | PROBABLY_NOT_FINANCIAL

definition definitely_financial_patterns :: "regex list" where
  "definitely_financial_patterns =
   [ Seq (word_of (map Lit [''credit card'', ''card'', ''transaction'', ''charged'', ''payment'',
                            ''purchase'']))
         (Seq (Star AnyChar) currency_amount),
     word_of [Lit ''card ending'',
              seqs [Lit ''card'', Star AnyChar, Repeat 4 Digit],
              seqs [Lit ''xxxx'', Repeat 4 Digit],
              seqs [Repeat 4 (Lit ''*''), Repeat 4 Digit]],
     word_of [dots [''transaction'', ''successful''], dots [''payment'', ''completed''],
              dots [''purchase'', ''confirmed'']],
     word_of (map Lit [''statement'', ''monthly statement'', ''billing statement'',
                       ''card statement'']),
     Seq (word_of (map Lit [''swiggy'', ''zomato'', ''amazon'', ''flipkart'', ''uber'', ''ola'',
                            ''paytm'', ''phonepe'', ''gpay'']))
         (Seq (Star AnyChar) currency_amount),
     word_of [dots [''payment'', ''received''], dots [''bill'', ''paid''],
              dots [''auto'', ''debit''], dots [''emi'', ''deducted'']],
     word_of [dots [''available'', ''limit''], dots [''credit'', ''limit''],
              dots [''outstanding'', ''amount''], dots [''minimum'', ''due'']] ]"

definition maybe_financial_patterns :: "regex list" where
  "maybe_financial_patterns =
   [ word_of [dots [''hdfc'', ''card''], dots [''icici'', ''card''], dots [''sbi'', ''card''],
              dots [''axis'', ''card''], dots [''kotak'', ''card''],
              dots [''yes'', ''bank'', ''card''], dots [''citibank'', ''card'']],
     word_of (map Lit [''visa'', ''mastercard'', ''rupay'', ''amex'', ''american express'']),
     word_of [dots [''card'', ''blocked''], dots [''card'', ''unblocked''],
              dots [''card'', ''activated''], dots [''card'', ''deactivated'']],
     word_of [dots [''reward'', ''points''], Lit ''cashback'', dots [''reward'', ''earned''],
              dots [''points'', ''credited'']],
     word_of [dots [''credit'', ''limit'', ''increased''], dots [''limit'', ''enhanced''],
              dots [''credit'', ''line'']],
     word_of [Lit ''emi'', Lit ''equated monthly installment'', dots [''convert'', ''emi''],
              dots [''emi'', ''conversion'']],
     word_of [dots [''card'', ''used''], dots [''international'', ''transaction''],
              dots [''online'', ''transaction''], dots [''pos'', ''transaction'']],
     word_of [dots [''otp'', ''card''], Lit ''cvv'', dots [''card'', ''verification''],
              dots [''secure'', ''transaction'']],
     word_of [dots [''due'', ''date''], dots [''payment'', ''due''], dots [''bill'', ''generated''],
              dots [''statement'', ''ready'']],
     word_of [dots [''auto'', ''pay''], Lit ''autopay'', dots [''scheduled'', ''payment''],
              dots [''standing'', ''instruction'']] ]"

definition exclude_patterns :: "regex list" where
  "exclude_patterns =
   [ word_of (map Lit [''newsletter'', ''unsubscribe'', ''promotional'', ''marketing'',
                       ''advertisement'']),
     word_of (map Lit [''sale'', ''discount'', ''offer'', ''deal'', ''coupon'', ''cashback offer'',
                       ''mega sale'']),
     word_of [Lit ''limited time'', Lit ''hurry'',
              seqs [Lit ''don'', Class False [(39, 39)], Lit ''t miss''],
              Lit ''exclusive offer'', Lit ''special price''],
     word_of (map Lit [''notification'', ''reminder'', ''update'', ''news'', ''blog'', ''article'']),
     word_of (map Lit [''facebook'', ''twitter'', ''instagram'', ''linkedin'', ''youtube'',
                       ''social'']),
     Seq (word_of (map Lit [''password'', ''login'', ''verification code'', ''2fa''])) unless_card,
     word_of (map Lit [''virus'', ''malware'', ''phishing'', ''spam'', ''suspicious activity'']),
     Seq (word_of (map Lit [''bank transfer'', ''wire transfer'', ''neft'', ''rtgs'', ''imps'',
                            ''upi''])) unless_card,
     word_of (map Lit [''fixed deposit'', ''fd'', ''savings'', ''salary credit'',
                       ''bonus credit'']),
     Seq (word_of (map Lit [''wallet'', ''digital wallet'', ''paytm wallet'', ''phonepe wallet'']))
         unless_card,
     Seq (word_of (map Lit [''electricity bill'', ''gas bill'', ''water bill'', ''internet bill'',
                            ''mobile bill''])) unless_card,
     Seq (word_of (map Lit [''mutual fund'', ''sip'', ''systematic'', ''insurance premium'',
                            ''policy''])) unless_card,
     Seq (word_of (map Lit [''salary'', ''payroll'', ''bonus'', ''hr'', ''human resources'']))
         unless_card ]"

text \<open>
  The text that is classified: subject, sender and the first 200 characters of the
  body, separated by blanks and lower-cased.
\<close>

definition classify_text :: "pylib \<Rightarrow> email \<Rightarrow> pystr" where
  "classify_text L email =
     str_lower L (subject email @ str '' '' @ from' email @ str '' '' @ take 200 (bodyText email))"

text \<open>\<open>for pattern in patterns: if re.search(pattern, text, re.IGNORECASE): return ...\<close>\<close>

fun any_pattern_matches :: "pylib \<Rightarrow> regex list \<Rightarrow> pystr \<Rightarrow> bool" where
  "any_pattern_matches L [] text = False"
| "any_pattern_matches L (pattern # patterns) text =
     (if re_search L pattern True text \<noteq> None then True
      else any_pattern_matches L patterns text)"

definition classify_email :: "pylib \<Rightarrow> email \<Rightarrow> EmailRelevance" where
  "classify_email L email =
     (let text = classify_text L email
      in if any_pattern_matches L exclude_patterns text then PROBABLY_NOT_FINANCIAL
         else if any_pattern_matches L definitely_financial_patterns text then DEFINITELY_FINANCIAL
         else if any_pattern_matches L maybe_financial_patterns text then MAYBE_FINANCIAL
         else PROBABLY_NOT_FINANCIAL)"

record classified =
  definitely_financial :: "email list"
  maybe_financial :: "email list"
  probably_not :: "email list"

fun classify_loop :: "pylib \<Rightarrow> email list \<Rightarrow> classified \<Rightarrow> classified" where
  "classify_loop L [] acc = acc"
| "classify_loop L (email # emails) acc =
     (let classification = classify_email L email
      in classify_loop L emails
           (if classification = DEFINITELY_FINANCIAL
            then acc\<lparr>definitely_financial := definitely_financial acc @ [email]\<rparr>
            else if classification = MAYBE_FINANCIAL
            then acc\<lparr>maybe_financial := maybe_financial acc @ [email]\<rparr>
            else acc\<lparr>probably_not := probably_not acc @ [email]\<rparr>))"

definition classify_emails_batch :: "pylib \<Rightarrow> email list \<Rightarrow> classified" where
  "classify_emails_batch L emails =
     classify_loop L emails
       \<lparr>definitely_financial = [], maybe_financial = [], probably_not = []\<rparr>"

record stats =
  stat_total_emails :: nat
  stat_definitely_financial :: nat
  stat_maybe_financial :: nat
  stat_probably_not :: nat
  stat_will_process_with_ai :: nat
  stat_ai_processing_reduction :: real

definition get_classification_stats :: "classified \<Rightarrow> stats" where
  "get_classification_stats classification_result =
     (let total = length (definitely_financial classification_result)
                  + length (maybe_financial classification_result)
                  + length (probably_not classification_result)
      in \<lparr> stat_total_emails = total,
           stat_definitely_financial = length (definitely_financial classification_result),
           stat_maybe_financial = length (maybe_financial classification_result),
           stat_probably_not = length (probably_not classification_result),
           stat_will_process_with_ai = length (definitely_financial classification_result)
                                       + length (maybe_financial classification_result),
           stat_ai_processing_reduction =
             (if total > 0
              then py_round (real (length (probably_not classification_result)) / real total * 100) 1
              else 0) \<rparr>)"

section \<open>Job store and batch scheduler (services/async\_processor.py)\<close>

text \<open>
  Parsed JSON, which is also the shape of an insight record (an untyped dictionary
  of dictionaries).  A number is kept as its value, a real.
\<close>

datatype json = JNull | JBool bool | JNum real | JStr pystr | JArr "json list"
  | JObj "(pystr \<times> json) list"

text \<open>\<open>str(n)\<close> for a non-negative integer, as the f-strings of the messages use it.\<close>

fun str_nat :: "nat \<Rightarrow> pystr" where
  "str_nat n = (if n < 10 then [48 + n] else str_nat (n div 10) @ [48 + n mod 10])"

text \<open>\<open>range(0, stop, step)\<close> for a positive step, and the slice \<open>xs[i:i+k]\<close>.\<close>

definition range_from0 :: "nat \<Rightarrow> nat \<Rightarrow> nat list" where
  "range_from0 stop step = map (\<lambda>k. k * step) [0..<(stop + step - 1) div step]"

definition slice :: "'a list \<Rightarrow> nat \<Rightarrow> nat \<Rightarrow> 'a list" where
  "slice xs i k = take k (drop i xs)"

datatype job_status = Starting | Running | Completed | Failed

record metadata =
  total_emails_fetched :: nat
  financial_emails_processed :: nat
  ai_processing_reduction :: real
  processing_completed_at :: real

record 'rep final_results =
  analytics :: 'rep
  classification_stats :: stats
  extracted_insights :: "json list"
  metadata :: metadata

text \<open>
  The job dictionary.  Times are kept as timestamps in seconds (the source stores
  their ISO text and parses it back); \<open>updated_at\<close> is absent until the first update.
\<close>

record 'rep job =
  status :: job_status
  progress :: real
  total :: nat
  current_step :: pystr
  start_time :: real
  updated_at :: "real option"
  results :: "'rep final_results option"
  error :: "pystr option"

type_synonym job_id = pystr

type_synonym 'rep store = "job_id \<rightharpoonup> 'rep job"

text \<open>
  \<open>start_processing_job\<close>: \<open>uuid\<close> is the value of \<open>str(uuid.uuid4())\<close> and \<open>now\<close> the
  clock.  The background task it creates is \<open>process_emails_async\<close> below.
\<close>

definition start_processing_job :: "job_id \<Rightarrow> real \<Rightarrow> 'rep store \<Rightarrow> job_id \<times> 'rep store" where
  "start_processing_job uuid now jobs =
     (uuid, jobs(uuid \<mapsto> \<lparr> status = Starting, progress = 0, total = 0,
                           current_step = str ''Initializing...'', start_time = now,
                           updated_at = None, results = None, error = None \<rparr>))"

text \<open>
  \<open>_update_job\<close>.  The dictionary literal is built before anything is stored, and
  \<open>round(None, 1)\<close> raises \<open>TypeError\<close> while it is built.  \<open>if results:\<close> holds for
  every results dictionary (it has four keys), \<open>if error:\<close> for a non-empty string.
\<close>

definition round_none_error :: exn where
  "round_none_error =
     Exn ''TypeError'' (str ''type NoneType doesn'' @ [39] @ str ''t define __round__ method'')"

definition update_job ::
  "real \<Rightarrow> job_id \<Rightarrow> job_status \<Rightarrow> real option \<Rightarrow> pystr \<Rightarrow> 'rep final_results option \<Rightarrow>
   pystr option \<Rightarrow> 'rep store \<Rightarrow> exn + 'rep store" where
  "update_job now job_id st prog step res err jobs =
     (case jobs job_id of
        None \<Rightarrow> Inr jobs
      | Some job \<Rightarrow>
          (case prog of
             None \<Rightarrow> Inl round_none_error
           | Some p \<Rightarrow>
               (let job1 = job\<lparr> status := st, progress := py_round p 1, current_step := step,
                                updated_at := Some now \<rparr>;
                    job2 = (if res \<noteq> None then job1\<lparr> results := res \<rparr> else job1);
                    job3 = (if err \<noteq> None \<and> err \<noteq> Some [] then job2\<lparr> error := err \<rparr> else job2)
                in Inr (jobs(job_id \<mapsto> job3)))))"

definition get_job_status :: "'rep store \<Rightarrow> job_id \<Rightarrow> 'rep job option" where
  "get_job_status jobs job_id = jobs job_id"

definition cleanup_old_jobs :: "real \<Rightarrow> int \<Rightarrow> 'rep store \<Rightarrow> 'rep store" where
  "cleanup_old_jobs now max_age_hours jobs =
     (let cutoff_time = now - of_int (max_age_hours * 3600)
      in (\<lambda>job_id. case jobs job_id of
            None \<Rightarrow> None
          | Some job_data \<Rightarrow>
              if start_time job_data < cutoff_time \<and> status job_data \<in> {Completed, Failed}
              then None else Some job_data))"

subsection \<open>The background task\<close>

text \<open>
  The collaborators are injected; each call returns a value or raises.  The extractor
  is called once per batch, from a worker thread: its answer is indexed by the batch
  index, so that equal batches may be answered differently.  \<open>svc_now k\<close> is the
  clock at the \<open>k\<close>-th update.
\<close>

record ('raw, 'rep) services =
  svc_fetch_emails_last_6_months :: "exn + 'raw list"
  svc_parse_email :: "'raw \<Rightarrow> exn + email"
  svc_classify_emails_batch :: "email list \<Rightarrow> exn + classified"
  svc_get_classification_stats :: "classified \<Rightarrow> exn + stats"
  svc_extract_insights_batch :: "nat \<Rightarrow> email list \<Rightarrow> nat \<Rightarrow> exn + json list"
  svc_generate_comprehensive_insights :: "json list \<Rightarrow> exn + 'rep"
  svc_now :: "nat \<Rightarrow> real"

text \<open>
  The state of a run: the current job store and the log of the stores that the
  successive \<open>_update_job\<close> calls have produced, oldest first.  A step returns its
  value or the exception it raised, and the state at that moment.
\<close>

type_synonym 'rep run_state = "'rep store \<times> 'rep store list"

type_synonym ('a, 'rep) step = "'rep run_state \<Rightarrow> (exn + 'a) \<times> 'rep run_state"

definition bind :: "('a, 'rep) step \<Rightarrow> ('a \<Rightarrow> ('b, 'rep) step) \<Rightarrow> ('b, 'rep) step" where
  "bind m f s = (case m s of (Inl e, s') \<Rightarrow> (Inl e, s') | (Inr a, s') \<Rightarrow> f a s')"

definition call :: "exn + 'a \<Rightarrow> ('a, 'rep) step" where
  "call r s = (r, s)"

definition upd ::
  "('raw, 'rep) services \<Rightarrow> job_id \<Rightarrow> job_status \<Rightarrow> real option \<Rightarrow> pystr \<Rightarrow>
   'rep final_results option \<Rightarrow> pystr option \<Rightarrow> (unit, 'rep) step" where
  "upd env job_id st prog step res err s =
     (case update_job (svc_now env (length (snd s))) job_id st prog step res err (fst s) of
        Inl e \<Rightarrow> (Inl e, s)
      | Inr jobs' \<Rightarrow> (Inr (), (jobs', snd s @ [jobs'])))"

definition batch_size :: nat where
  "batch_size = 5"

definition max_concurrent_batches :: nat where
  "max_concurrent_batches = 3"

text \<open>Step 2: the parsing loop, \<open>i\<close> counting the emails, \<open>n = len(emails)\<close>.\<close>

fun parse_loop ::
  "('raw, 'rep) services \<Rightarrow> job_id \<Rightarrow> nat \<Rightarrow> nat \<Rightarrow> 'raw list \<Rightarrow> email list \<Rightarrow>
   (email list, 'rep) step" where
  "parse_loop env job_id n i [] parsed_emails = call (Inr parsed_emails)"
| "parse_loop env job_id n i (email # emails) parsed_emails =
     bind (call (svc_parse_email env email)) (\<lambda>parsed_email.
     bind (if i mod 10 = 0
           then upd env job_id Running (Some (20 + (real i / real n) * 30))
                  (str ''Parsing emails... '' @ str_nat (i + 1) @ str ''/'' @ str_nat n) None None
           else call (Inr ())) (\<lambda>_.
     parse_loop env job_id n (i + 1) emails (parsed_emails @ [parsed_email])))"

text \<open>\<open>_process_batch_async\<close>: the extractor's exception is wrapped.\<close>

definition process_batch_async ::
  "('raw, 'rep) services \<Rightarrow> email list \<Rightarrow> nat \<Rightarrow> exn + json list" where
  "process_batch_async env batch batch_idx =
     (case svc_extract_insights_batch env batch_idx batch (length batch) of
        Inl e \<Rightarrow> Inl (Exn ''Exception''
                   (str ''Batch '' @ str_nat batch_idx @ str '' processing failed: '' @ exn_str e))
      | Inr batch_results \<Rightarrow> Inr batch_results)"

text \<open>The loop over the gathered results of one chunk.\<close>

fun collect_results ::
  "('raw, 'rep) services \<Rightarrow> job_id \<Rightarrow> (exn + json list) list \<Rightarrow> json list \<Rightarrow>
   (json list, 'rep) step" where
  "collect_results env job_id [] extracted_data = call (Inr extracted_data)"
| "collect_results env job_id (result # batch_results) extracted_data =
     (case result of
        Inl e \<Rightarrow>
          bind (upd env job_id Running None
                  (str ''Warning: Batch processing error - '' @ exn_str e) None None) (\<lambda>_.
          collect_results env job_id batch_results extracted_data)
      | Inr insights \<Rightarrow> collect_results env job_id batch_results (extracted_data @ insights))"

text \<open>The loop over the chunks; \<open>n\<close> is \<open>len(relevant_emails)\<close>.\<close>

fun chunk_loop ::
  "('raw, 'rep) services \<Rightarrow> job_id \<Rightarrow> (nat \<times> email list) list \<Rightarrow> nat \<Rightarrow> nat list \<Rightarrow>
   json list \<Rightarrow> (json list, 'rep) step" where
  "chunk_loop env job_id batches n [] extracted_data = call (Inr extracted_data)"
| "chunk_loop env job_id batches n (chunk_start # chunk_starts) extracted_data =
     (let chunk_batches = slice batches chunk_start max_concurrent_batches;
          batch_results = map (\<lambda>(batch_idx, batch). process_batch_async env batch batch_idx)
                            chunk_batches
      in bind (collect_results env job_id batch_results extracted_data) (\<lambda>extracted_data'.
         let processed_emails =
               min (min (chunk_start + max_concurrent_batches) (length batches) * batch_size) n;
             progress = 60 + (real processed_emails / real n) * 30
         in bind (upd env job_id Running (Some progress)
                    (str ''AI processing... '' @ str_nat processed_emails @ str ''/'' @ str_nat n
                       @ str '' emails (parallel processing)'') None None) (\<lambda>_.
            chunk_loop env job_id batches n chunk_starts extracted_data')))"

text \<open>The body of the \<open>try\<close> block of \<open>_process_emails_async\<close>.\<close>

definition process_emails_body :: "('raw, 'rep) services \<Rightarrow> job_id \<Rightarrow> (unit, 'rep) step" where
  "process_emails_body env job_id =
     bind (upd env job_id Running (Some 10)
             (str ''Fetching ALL emails from Gmail (last 6 months)...'') None None) (\<lambda>_.
     bind (call (svc_fetch_emails_last_6_months env)) (\<lambda>emails.
     bind (upd env job_id Running (Some 20)
             (str ''Fetched '' @ str_nat (length emails) @ str '' emails. Parsing content...'')
             None None) (\<lambda>_.
     bind (parse_loop env job_id (length emails) 0 emails []) (\<lambda>parsed_emails.
     bind (upd env job_id Running (Some 50) (str ''Classifying emails by relevance...'')
             None None) (\<lambda>_.
     bind (call (svc_classify_emails_batch env parsed_emails)) (\<lambda>classified.
     bind (call (svc_get_classification_stats env classified)) (\<lambda>stats.
     let relevant_emails = definitely_financial classified @ maybe_financial classified
     in
     bind (upd env job_id Running (Some 60)
             (str ''Processing '' @ str_nat (length relevant_emails)
                @ str '' financial emails with AI... (Skipped ''
                @ str_nat (stat_probably_not stats) @ str '' irrelevant emails)'') None None) (\<lambda>_.
     let batches = map (\<lambda>i. (i, slice relevant_emails i batch_size))
                     (range_from0 (length relevant_emails) batch_size)
     in
     bind (chunk_loop env job_id batches (length relevant_emails)
             (range_from0 (length batches) max_concurrent_batches) []) (\<lambda>extracted_data.
     bind (upd env job_id Running (Some 90) (str ''Generating comprehensive analytics...'')
             None None) (\<lambda>_.
     bind (call (svc_generate_comprehensive_insights env extracted_data)) (\<lambda>analytics.
     (\<lambda>s.
       let final_results =
            \<lparr> analytics = analytics, classification_stats = stats,
              extracted_insights = extracted_data,
              metadata = \<lparr> total_emails_fetched = length emails,
                           financial_emails_processed = length relevant_emails,
                           ai_processing_reduction = stat_ai_processing_reduction stats,
                           processing_completed_at = svc_now env (length (snd s)) \<rparr> \<rparr>
       in upd env job_id Completed (Some 100) (str ''Processing completed successfully!'')
            (Some final_results) None s))))))))))))"

text \<open>\<open>_process_emails_async\<close>: the body, and the handler of \<open>except Exception\<close>.\<close>

definition process_emails_async :: "('raw, 'rep) services \<Rightarrow> job_id \<Rightarrow> (unit, 'rep) step" where
  "process_emails_async env job_id s =
     (case process_emails_body env job_id s of
        (Inr u, s') \<Rightarrow> (Inr (), s')
      | (Inl e, s') \<Rightarrow>
          upd env job_id Failed (Some 0) (str ''Error: '' @ exn_str e) None (Some (exn_str e)) s')"

text \<open>The job records that a log shows for one job id.\<close>

definition job_trace :: "job_id \<Rightarrow> 'rep store list \<Rightarrow> 'rep job list" where
  "job_trace job_id stores = List.map_filter (\<lambda>jobs. jobs job_id) stores"

subsection \<open>The progress stream\<close>

text \<open>
  \<open>get_job_stream\<close> polls the job once a second while the background task changes
  it.  \<open>get_job_status\<close> hands out the dictionary of the job itself, and \<open>_update_job\<close>
  changes that dictionary in place; so what the generator reads from \<open>job\<close> after it
  has been suspended at the \<open>yield\<close> of a snapshot is what the background task has
  written by then, not what the snapshot was built from.  A poll is what one turn of
  the loop meets: the store at the call of \<open>get_job_status\<close>, and the record that the
  dictionary returned by this call holds when the generator resumes from the \<open>yield\<close>
  of the snapshot.  The second is read only in a turn that yields a snapshot; in a
  turn that yields none the generator is not suspended between its reads.  The
  result is what the generator has yielded and whether it has finished; when the
  polls run out before a final state is seen, it is still waiting.
\<close>

datatype 'rep stream_item =
    JobNotFound
  | Snapshot job_status real pystr "real option"
  | ResultsItem "'rep final_results"
  | ErrorItem "pystr option"

type_synonym 'rep poll = "'rep store \<times> 'rep job"

fun stream_loop :: "job_id \<Rightarrow> real \<Rightarrow> 'rep poll list \<Rightarrow> 'rep stream_item list \<times> bool" where
  "stream_loop job_id last_progress [] = ([], False)"
| "stream_loop job_id last_progress ((jobs, resumed) # polls) =
     (case get_job_status jobs job_id of
        None \<Rightarrow> ([JobNotFound], True)
      | Some job \<Rightarrow>
          (let changed = (progress job \<noteq> last_progress);
               update = (if changed
                         then [Snapshot (status job) (progress job) (current_step job)
                                 (updated_at job)]
                         else []);
               job' = (if changed then resumed else job);
               last_progress' = (if changed then progress job' else last_progress)
           in if status job' \<in> {Completed, Failed}
              then (update @
                      (case (status job', results job') of
                         (Completed, Some r) \<Rightarrow> [ResultsItem r]
                       | (Failed, _) \<Rightarrow> [ErrorItem (error job')]
                       | _ \<Rightarrow> []), True)
              else (case stream_loop job_id last_progress' polls of
                      (items, finished) \<Rightarrow> (update @ items, finished))))"

definition get_job_stream :: "job_id \<Rightarrow> 'rep poll list \<Rightarrow> 'rep stream_item list \<times> bool" where
  "get_job_stream job_id polls = stream_loop job_id (- 1) polls"

text \<open>
  What the contract of the stream says, in its own words: of the job records that
  the polls see, a snapshot is due for each one whose progress differs from the
  progress seen just before it (\<open>last_progress\<close> before the first).
\<close>

definition snapshot_of :: "'rep job \<Rightarrow> 'rep stream_item" where
  "snapshot_of job = Snapshot (status job) (progress job) (current_step job) (updated_at job)"

definition changed_snapshots :: "real \<Rightarrow> 'rep job list \<Rightarrow> 'rep stream_item list" where
  "changed_snapshots last_progress js =
     map (\<lambda>(prev, job). snapshot_of job)
       (filter (\<lambda>(prev, job). progress job \<noteq> prev) (zip (last_progress # map progress js) js))"

definition still_running :: "job_id \<Rightarrow> 'rep store \<Rightarrow> bool" where
  "still_running job_id jobs =
     (case jobs job_id of None \<Rightarrow> False | Some job \<Rightarrow> status job = Starting \<or> status job = Running)"

text \<open>A poll during which the background task writes nothing to the job.\<close>

definition quiet :: "job_id \<Rightarrow> 'rep poll \<Rightarrow> bool" where
  "quiet job_id poll = (case fst poll job_id of None \<Rightarrow> True | Some job \<Rightarrow> snd poll = job)"

fun item_progress :: "'rep stream_item \<Rightarrow> real option" where
  "item_progress (Snapshot st p step t) = Some p"
| "item_progress other = None"

section \<open>Extractor (services/intelligent\_extractor.py)\<close>

subsection \<open>Dictionaries\<close>

text \<open>
  The name of the type of a parsed JSON value, as the messages of \<open>TypeError\<close> and
  \<open>AttributeError\<close> quote it.  The numbers of the model do not say whether they are
  an \<open>int\<close> or a \<open>float\<close>; a number with an integral value is taken to be an \<open>int\<close>.
\<close>

definition type_name :: "json \<Rightarrow> string" where
  "type_name v =
     (case v of
        JNull \<Rightarrow> ''NoneType''
      | JBool b \<Rightarrow> ''bool''
      | JNum x \<Rightarrow> (if of_int \<lfloor>x\<rfloor> = x then ''int'' else ''float'')
      | JStr s \<Rightarrow> ''str''
      | JArr xs \<Rightarrow> ''list''
      | JObj kvs \<Rightarrow> ''dict'')"

definition quoted :: "string \<Rightarrow> pystr" where
  "quoted s = [39] @ str s @ [39]"

text \<open>
  A Python dictionary with string keys is an association list, in insertion order.
  \<open>d[k] = v\<close> with a string \<open>k\<close> raises \<open>TypeError\<close> on a value that is not a
  dictionary: a list wants an integer index, the other values support no item
  assignment.
\<close>

definition dict_lookup :: "json \<Rightarrow> pystr \<Rightarrow> json option" where
  "dict_lookup d k = (case d of JObj kvs \<Rightarrow> map_of kvs k | _ \<Rightarrow> None)"

definition set_item :: "json \<Rightarrow> pystr \<Rightarrow> json \<Rightarrow> exn + json" where
  "set_item d k v =
     (case d of
        JObj kvs \<Rightarrow> Inr (JObj (AList.update k v kvs))
      | JArr xs \<Rightarrow>
          Inl (Exn ''TypeError'' (str ''list indices must be integers or slices, not str''))
      | _ \<Rightarrow>
          Inl (Exn ''TypeError''
                 (quoted (type_name d) @ str '' object does not support item assignment'')))"

text \<open>\<open>len(x)\<close> and \<open>x[i]\<close> for a natural number \<open>i\<close> on a parsed JSON value.\<close>

definition py_len :: "json \<Rightarrow> exn + nat" where
  "py_len x =
     (case x of
        JArr xs \<Rightarrow> Inr (length xs)
      | JObj kvs \<Rightarrow> Inr (length kvs)
      | JStr s \<Rightarrow> Inr (length s)
      | _ \<Rightarrow> Inl (Exn ''TypeError''
                    (str ''object of type '' @ quoted (type_name x) @ str '' has no len()'')))"

definition get_index :: "json \<Rightarrow> nat \<Rightarrow> exn + json" where
  "get_index x i =
     (case x of
        JArr xs \<Rightarrow> if i < length xs then Inr (xs ! i)
                   else Inl (Exn ''IndexError'' (str ''list index out of range''))
      | JStr s \<Rightarrow> if i < length s then Inr (JStr [s ! i])
                  else Inl (Exn ''IndexError'' (str ''string index out of range''))
      | JObj kvs \<Rightarrow> Inl (Exn ''KeyError'' (str_nat i))
      | _ \<Rightarrow> Inl (Exn ''TypeError''
                    (quoted (type_name x) @ str '' object is not subscriptable'')))"

subsection \<open>The model and the rule-based fallback\<close>

text \<open>
  The generative model is outside the repository.  A call sends a prompt, built from
  one email or from a batch; \<open>reply prompt k\<close> is what the \<open>k\<close>-th call of a run
  gives after the cleaning of the text and \<open>json.loads\<close>: the parsed JSON, or the
  exception that one of these steps raised.  \<open>ex_model = None\<close> is the extractor
  without an API key.  \<open>ex_today\<close> is \<open>datetime.now().strftime('%Y-%m-%d')\<close>.
\<close>

datatype prompt = SinglePrompt pystr pystr pystr | BatchPrompt "(pystr \<times> pystr \<times> pystr) list"

type_synonym ai_model = "prompt \<Rightarrow> nat \<Rightarrow> exn + json"

record extractor =
  ex_lib :: pylib
  ex_model :: "ai_model option"
  ex_today :: pystr

definition merchant_patterns :: "(string \<times> string) list" where
  "merchant_patterns =
     [(''swiggy'', ''Swiggy''), (''zomato'', ''Zomato''), (''amazon'', ''Amazon''),
      (''flipkart'', ''Flipkart''), (''uber'', ''Uber''), (''ola'', ''Ola''),
      (''paytm'', ''Paytm''), (''phonepe'', ''PhonePe''), (''gpay'', ''Google Pay''),
      (''myntra'', ''Myntra''), (''bigbasket'', ''BigBasket''), (''netflix'', ''Netflix''),
      (''spotify'', ''Spotify''), (''airtel'', ''Airtel''), (''jio'', ''Jio''),
      (''hdfc'', ''HDFC Bank''), (''icici'', ''ICICI Bank''), (''sbi'', ''SBI''),
      (''axis'', ''Axis Bank'')]"

text \<open>\<open>for pattern, name in merchant_patterns.items(): if pattern in text: return name\<close>\<close>

fun known_merchant :: "(string \<times> string) list \<Rightarrow> pystr \<Rightarrow> pystr option" where
  "known_merchant [] text = None"
| "known_merchant ((pattern, name) # rest) text =
     (if contains (str pattern) text then Some (str name) else known_merchant rest text)"

definition noise_words :: "string list" where
  "noise_words = [''you'', ''your'', ''rs'', ''view'', ''fwd'', ''account'', ''alert'', ''update'',
                  ''payment'', ''scheduled'']"

text \<open>\<open>for word in words: if word.lower() not in noise_words and len(word) > 2: return word\<close>\<close>

fun first_word :: "pylib \<Rightarrow> pystr list \<Rightarrow> pystr option" where
  "first_word L [] = None"
| "first_word L (word # words) =
     (if str_lower L word \<notin> set (map str noise_words) \<and> length word > 2 then Some word
      else first_word L words)"

text \<open>The patterns \<open>@([^.]+)\<close> and \<open>\b[A-Z][a-z]+\b\<close>.\<close>

definition domain_pattern :: regex where
  "domain_pattern = Seq (Lit ''@'') (Group (Plus (Class True [(46, 46)])))"

definition capitalised_word :: regex where
  "capitalised_word =
     Seq WordB (Seq (Class False [(65, 90)]) (Seq (Plus (Class False [(97, 122)])) WordB))"

definition extract_clean_merchant :: "pylib \<Rightarrow> pystr \<Rightarrow> pystr \<Rightarrow> pystr option" where
  "extract_clean_merchant L email_from subj =
     (let text = str_lower L (email_from @ str '' '' @ subj)
      in case known_merchant merchant_patterns text of
           Some name \<Rightarrow> Some name
         | None \<Rightarrow>
             (case (case re_search L domain_pattern False email_from of
                      Some (whole, Some group1) \<Rightarrow>
                        known_merchant merchant_patterns (str_lower L group1)
                    | _ \<Rightarrow> None) of
                Some name \<Rightarrow> Some name
              | None \<Rightarrow> first_word L (re_findall L capitalised_word False subj)))"

text \<open>
  The three amount patterns: a currency mark (the rupee sign, \<open>inr\<close> or \<open>rs\<close> with an
  optional point) before the number, after it, or after one of four words.
\<close>

definition currency_mark :: regex where
  "currency_mark =
     alts [Class False [(8377, 8377)], Lit ''inr'', Seq (Lit ''rs'') (Opt (Lit ''.''))]"

definition amount_number :: regex where
  "amount_number =
     Group (Seq (Plus (Class False [(48, 57), (44, 44)]))
                (Opt (Seq (Lit ''.'') (Repeat 2 (Class False [(48, 57)])))))"

definition amount_patterns :: "regex list" where
  "amount_patterns =
     [ seqs [currency_mark, Star Space, amount_number],
       seqs [amount_number, Star Space, currency_mark],
       seqs [alts (map Lit [''amount'', ''total'', ''paid'', ''charged'']), LazyStar AnyChar,
             currency_mark, Star Space, amount_number] ]"

text \<open>
  \<open>_extract_amount\<close>: of each pattern only the first match is tried; a match that
  \<open>float\<close> rejects, or one outside the range, passes on to the next pattern.
\<close>

fun extract_amount_loop :: "pylib \<Rightarrow> regex list \<Rightarrow> pystr \<Rightarrow> real option" where
  "extract_amount_loop L [] text = None"
| "extract_amount_loop L (pattern # patterns) text =
     (case re_findall L pattern True text of
        [] \<Rightarrow> extract_amount_loop L patterns text
      | m # _ \<Rightarrow>
          (case py_float L (remove_char 44 m) of
             None \<Rightarrow> extract_amount_loop L patterns text
           | Some amount \<Rightarrow>
               if 1 \<le> amount \<and> amount \<le> 1000000 then Some amount
               else extract_amount_loop L patterns text))"

definition extract_amount :: "pylib \<Rightarrow> pystr \<Rightarrow> real option" where
  "extract_amount L text = extract_amount_loop L amount_patterns text"

definition categories :: "(string \<times> string list) list" where
  "categories =
     [(''Food'', [''swiggy'', ''zomato'', ''dominos'', ''kfc'', ''mcdonald'']),
      (''Shopping'', [''amazon'', ''flipkart'', ''myntra'', ''ajio'']),
      (''Transportation'', [''uber'', ''ola'', ''rapido'']),
      (''Entertainment'', [''netflix'', ''spotify'', ''hotstar'', ''prime'']),
      (''Bills'', [''airtel'', ''jio'', ''bsnl'', ''electricity'', ''gas'']),
      (''Healthcare'', [''practo'', ''apollo'', ''pharmeasy'']),
      (''Travel'', [''makemytrip'', ''goibibo'', ''cleartrip'', ''irctc''])]"

fun categorize_loop :: "(string \<times> string list) list \<Rightarrow> pystr \<Rightarrow> pystr" where
  "categorize_loop [] merchant_lower = str ''Other''"
| "categorize_loop ((category, merchants) # rest) merchant_lower =
     (if list_ex (\<lambda>m. contains (str m) merchant_lower) merchants then str category
      else categorize_loop rest merchant_lower)"

definition categorize_merchant :: "pylib \<Rightarrow> pystr \<Rightarrow> pystr" where
  "categorize_merchant L merchant = categorize_loop categories (str_lower L merchant)"

definition credit_card_keywords :: "string list" where
  "credit_card_keywords = [''card'', ''credit card'', ''transaction'', ''charged'', ''statement'',
                           ''payment'', ''purchase'', ''bill'']"

definition empty_result :: "(pystr \<times> json) list" where
  "empty_result =
     [(str ''transaction'', JNull), (str ''subscription'', JNull), (str ''travel'', JNull),
      (str ''bills'', JNull), (str ''card_info'', JNull), (str ''is_relevant'', JBool False)]"

definition fallback_extraction :: "extractor \<Rightarrow> pystr \<Rightarrow> pystr \<Rightarrow> pystr \<Rightarrow> json" where
  "fallback_extraction X email_content email_from subj =
     (let L = ex_lib X;
          text = str_lower L (subj @ str '' '' @ email_content)
      in if \<not> list_ex (\<lambda>keyword. contains (str keyword) text) credit_card_keywords
         then JObj empty_result
         else
           (let result = AList.update (str ''is_relevant'') (JBool True) empty_result;
                merchant = extract_clean_merchant L email_from subj;
                amount = extract_amount L text
            in case (merchant, amount) of
                 (Some m, Some a) \<Rightarrow>
                   if m \<noteq> [] \<and> a \<noteq> 0
                   then JObj (AList.update (str ''transaction'')
                          (JObj [(str ''merchant'', JStr m), (str ''amount'', JNum a),
                                 (str ''currency'', JStr (str ''INR'')),
                                 (str ''date'', JStr (ex_today X)),
                                 (str ''category'', JStr (categorize_merchant L m)),
                                 (str ''transaction_type'', JStr (str ''expense'')),
                                 (str ''card_type'', JStr (str ''credit_card'')),
                                 (str ''card_last_four'', JNull),
                                 (str ''confidence'', JNum (7 / 10))]) result)
                   else JObj result
               | _ \<Rightarrow> JObj result))"

text \<open>
  \<open>extract_financial_insights\<close>: without a model the fallback; with one, what the
  model's reply parses to, whatever JSON that is, and the fallback when the call or
  the parsing raises.  The number is the count of calls made so far.
\<close>

definition extract_financial_insights ::
  "extractor \<Rightarrow> pystr \<Rightarrow> pystr \<Rightarrow> pystr \<Rightarrow> nat \<Rightarrow> json \<times> nat" where
  "extract_financial_insights X email_content email_from subj calls =
     (case ex_model X of
        None \<Rightarrow> (fallback_extraction X email_content email_from subj, calls)
      | Some reply \<Rightarrow>
          (case reply (SinglePrompt email_from subj email_content) calls of
             Inr parsed \<Rightarrow> (parsed, calls + 1)
           | Inl e \<Rightarrow> (fallback_extraction X email_content email_from subj, calls + 1)))"

subsection \<open>Batches\<close>

text \<open>
  The loop that processes emails one by one; it is written three times in the
  source.  \<open>result['email_id'] = ...\<close> raises when the result is not a dictionary.
\<close>

fun extract_each :: "extractor \<Rightarrow> email list \<Rightarrow> nat \<Rightarrow> (exn + json list) \<times> nat" where
  "extract_each X [] calls = (Inr [], calls)"
| "extract_each X (email # emails) calls =
     (case extract_financial_insights X (bodyText email) (from' email) (subject email) calls of
        (result, calls1) \<Rightarrow>
          (case set_item result (str ''email_id'') (JStr (id' email)) of
             Inl e \<Rightarrow> (Inl e, calls1)
           | Inr tagged \<Rightarrow>
               (case extract_each X emails calls1 of
                  (Inl e, calls2) \<Rightarrow> (Inl e, calls2)
                | (Inr out, calls2) \<Rightarrow> (Inr (tagged # out), calls2))))"

text \<open>The loop of \<open>_process_batch_with_ai\<close> that maps the array of the reply back.\<close>

fun map_batch_results :: "extractor \<Rightarrow> json \<Rightarrow> nat \<Rightarrow> email list \<Rightarrow> exn + json list" where
  "map_batch_results X batch_results i [] = Inr []"
| "map_batch_results X batch_results i (email # emails) =
     (case py_len batch_results of
        Inl e \<Rightarrow> Inl e
      | Inr n \<Rightarrow>
          (case (if i < n
                 then (case get_index batch_results i of
                         Inl e \<Rightarrow> Inl e
                       | Inr result \<Rightarrow> set_item result (str ''email_id'') (JStr (id' email)))
                 else set_item
                        (fallback_extraction X (bodyText email) (from' email) (subject email))
                        (str ''email_id'') (JStr (id' email))) of
             Inl e \<Rightarrow> Inl e
           | Inr tagged \<Rightarrow>
               (case map_batch_results X batch_results (i + 1) emails of
                  Inl e \<Rightarrow> Inl e
                | Inr final_results \<Rightarrow> Inr (tagged # final_results))))"

definition batch_prompt :: "email list \<Rightarrow> prompt" where
  "batch_prompt emails =
     BatchPrompt (map (\<lambda>email. (from' email, subject email, take 500 (bodyText email))) emails)"

definition process_batch_with_ai ::
  "extractor \<Rightarrow> email list \<Rightarrow> nat \<Rightarrow> (exn + json list) \<times> nat" where
  "process_batch_with_ai X emails calls =
     (case ex_model X of
        None \<Rightarrow> (Inr [], calls)
      | Some reply \<Rightarrow>
          if emails = [] then (Inr [], calls)
          else
            (case (case reply (batch_prompt emails) calls of
                     Inl e \<Rightarrow> Inl e
                   | Inr batch_results \<Rightarrow> map_batch_results X batch_results 0 emails) of
               Inr final_results \<Rightarrow> (Inr final_results, calls + 1)
             | Inl e \<Rightarrow> extract_each X emails (calls + 1)))"

text \<open>\<open>range(0, stop, step)\<close> for any integer step.\<close>

definition py_range :: "nat \<Rightarrow> int \<Rightarrow> exn + nat list" where
  "py_range stop step =
     (if step = 0 then Inl (Exn ''ValueError'' (str ''range() arg 3 must not be zero''))
      else if step < 0 then Inr []
      else Inr (range_from0 stop (nat step)))"

fun batches_loop ::
  "extractor \<Rightarrow> email list \<Rightarrow> nat \<Rightarrow> nat list \<Rightarrow> json list \<Rightarrow> nat \<Rightarrow>
   (exn + json list) \<times> nat" where
  "batches_loop X emails bsize [] out calls = (Inr out, calls)"
| "batches_loop X emails bsize (i # starts) out calls =
     (let batch = slice emails i bsize
      in case (if ex_model X \<noteq> None
               then (case process_batch_with_ai X batch calls of
                       (Inr batch_results, calls1) \<Rightarrow> (Inr batch_results, calls1)
                     | (Inl e, calls1) \<Rightarrow> extract_each X batch calls1)
               else extract_each X batch calls) of
           (Inl e, calls2) \<Rightarrow> (Inl e, calls2)
         | (Inr batch_results, calls2) \<Rightarrow>
             batches_loop X emails bsize starts (out @ batch_results) calls2)"

definition extract_insights_batch ::
  "extractor \<Rightarrow> email list \<Rightarrow> int \<Rightarrow> nat \<Rightarrow> (exn + json list) \<times> nat" where
  "extract_insights_batch X emails bsize calls =
     (if emails = [] then (Inr [], calls)
      else (case py_range (length emails) bsize of
              Inl e \<Rightarrow> (Inl e, calls)
            | Inr starts \<Rightarrow> batches_loop X emails (nat bsize) starts [] calls))"

subsection \<open>What is asked of the results\<close>

text \<open>
  A record is tagged for an email when it is a dictionary whose \<open>email_id\<close> is the
  id of the email.  \<open>single_replies_ok\<close>: the extractor has no model, or whatever the
  model replies to a prompt for a single email parses to a dictionary or fails.
  \<open>amounts_outside\<close>: every match of every amount pattern in the text is rejected by
  \<open>float\<close> or lies outside the range from 1 to 1000000.
\<close>

definition is_dict :: "json \<Rightarrow> bool" where
  "is_dict j = (case j of JObj kvs \<Rightarrow> True | _ \<Rightarrow> False)"

definition tagged_for :: "email \<Rightarrow> json \<Rightarrow> bool" where
  "tagged_for email r = (is_dict r \<and> dict_lookup r (str ''email_id'') = Some (JStr (id' email)))"

definition single_replies_ok :: "extractor \<Rightarrow> bool" where
  "single_replies_ok X =
     (case ex_model X of
        None \<Rightarrow> True
      | Some reply \<Rightarrow>
          (\<forall>sender subj content k.
             case reply (SinglePrompt sender subj content) k of
               Inl e \<Rightarrow> True
             | Inr parsed \<Rightarrow> is_dict parsed))"

definition in_range :: "real \<Rightarrow> bool" where
  "in_range a = (1 \<le> a \<and> a \<le> 1000000)"

definition amounts_outside :: "pylib \<Rightarrow> pystr \<Rightarrow> bool" where
  "amounts_outside L text =
     list_all (\<lambda>pattern.
        list_all (\<lambda>m. case py_float L (remove_char 44 m) of
                         None \<Rightarrow> True
                       | Some a \<Rightarrow> \<not> in_range a)
                 (re_findall L pattern True text))
       amount_patterns"

section \<open>Aggregator (services/analytics\_service.py)\<close>

subsection \<open>Python on JSON values\<close>

text \<open>
  Truth of a value in a condition; \<open>d.get(k, default)\<close>, which exists on
  dictionaries only; and the number that arithmetic and comparison see (\<open>True\<close> and
  \<open>False\<close> are 1 and 0, anything that is not a number raises \<open>TypeError\<close>; the
  message of this \<open>TypeError\<close>, which names the operator and the types of both
  operands, is not modelled).
\<close>

definition truthy :: "json \<Rightarrow> bool" where
  "truthy v =
     (case v of
        JNull \<Rightarrow> False
      | JBool b \<Rightarrow> b
      | JNum x \<Rightarrow> x \<noteq> 0
      | JStr s \<Rightarrow> s \<noteq> []
      | JArr xs \<Rightarrow> xs \<noteq> []
      | JObj kvs \<Rightarrow> kvs \<noteq> [])"

definition dict_get :: "json \<Rightarrow> pystr \<Rightarrow> json \<Rightarrow> exn + json" where
  "dict_get d k dflt =
     (case d of
        JObj kvs \<Rightarrow> Inr (case map_of kvs k of None \<Rightarrow> dflt | Some v \<Rightarrow> v)
      | _ \<Rightarrow> Inl (Exn ''AttributeError''
                    (quoted (type_name d) @ str '' object has no attribute '' @ quoted ''get'')))"

definition num_of :: "json \<Rightarrow> exn + real" where
  "num_of v =
     (case v of
        JNum x \<Rightarrow> Inr x
      | JBool b \<Rightarrow> Inr (if b then 1 else 0)
      | _ \<Rightarrow> Inl (Exn ''TypeError'' (str ''unsupported operand type'')))"

text \<open>\<open>[item[k] for item in data if item.get(k)]\<close>\<close>

fun select_truthy :: "pystr \<Rightarrow> json list \<Rightarrow> exn + json list" where
  "select_truthy k [] = Inr []"
| "select_truthy k (item # data) =
     (case dict_get item k JNull of
        Inl e \<Rightarrow> Inl e
      | Inr v \<Rightarrow>
          (case select_truthy k data of
             Inl e \<Rightarrow> Inl e
           | Inr vs \<Rightarrow> Inr (if truthy v then v # vs else vs)))"

text \<open>\<open>[item for item in extracted_data if item.get('is_relevant', False)]\<close>\<close>

fun filter_relevant :: "json list \<Rightarrow> exn + json list" where
  "filter_relevant [] = Inr []"
| "filter_relevant (item # extracted_data) =
     (case dict_get item (str ''is_relevant'') (JBool False) of
        Inl e \<Rightarrow> Inl e
      | Inr v \<Rightarrow>
          (case filter_relevant extracted_data of
             Inl e \<Rightarrow> Inl e
           | Inr items \<Rightarrow> Inr (if truthy v then item # items else items)))"

subsection \<open>Subscriptions\<close>

text \<open>
  The loop of \<open>_analyze_subscriptions\<close>: it collects the service entries and adds up
  the monthly cost.  An amount takes part in arithmetic only for the three known
  billing cycles.  \<open>A\<close> is the arithmetic; \<open>4.33\<close> is a float literal, \<open>12\<close> and the
  initial \<open>0\<close> are integers.
\<close>

fun subscriptions_loop ::
  "arith \<Rightarrow> json list \<Rightarrow> json list \<Rightarrow> real \<Rightarrow> exn + (json list \<times> real)" where
  "subscriptions_loop A [] services monthly_cost = Inr (services, monthly_cost)"
| "subscriptions_loop A (sub # subscriptions) services monthly_cost =
     (case dict_get sub (str ''service'') JNull of Inl e \<Rightarrow> Inl e | Inr service \<Rightarrow>
      case dict_get sub (str ''amount'') (JNum 0) of Inl e \<Rightarrow> Inl e | Inr amount \<Rightarrow>
      case dict_get sub (str ''billing_cycle'') JNull of Inl e \<Rightarrow> Inl e | Inr billing_cycle \<Rightarrow>
      case dict_get sub (str ''next_billing'') JNull of Inl e \<Rightarrow> Inl e | Inr next_billing \<Rightarrow>
      let service_info = JObj [(str ''service'', service), (str ''amount'', amount),
                               (str ''billing_cycle'', billing_cycle),
                               (str ''next_billing'', next_billing)]
      in
      case dict_get sub (str ''billing_cycle'') (JStr (str ''monthly'')) of
        Inl e \<Rightarrow> Inl e
      | Inr cycle \<Rightarrow>
          (case (if cycle = JStr (str ''yearly'')
                 then (case num_of amount of Inl e \<Rightarrow> Inl e
                       | Inr a \<Rightarrow> Inr (ar_add A monthly_cost (ar_truediv A a 12)))
                 else if cycle = JStr (str ''monthly'')
                 then (case num_of amount of Inl e \<Rightarrow> Inl e
                       | Inr a \<Rightarrow> Inr (ar_add A monthly_cost a))
                 else if cycle = JStr (str ''weekly'')
                 then (case num_of amount of Inl e \<Rightarrow> Inl e
                       | Inr a \<Rightarrow>
                           Inr (ar_add A monthly_cost
                                  (ar_mul A a (ar_literal A (433 / 100)))))
                 else Inr monthly_cost) of
             Inl e \<Rightarrow> Inl e
           | Inr monthly_cost' \<Rightarrow>
               subscriptions_loop A subscriptions (services @ [service_info]) monthly_cost'))"

definition analyze_subscriptions :: "arith \<Rightarrow> json list \<Rightarrow> exn + json" where
  "analyze_subscriptions A data =
     (case select_truthy (str ''subscription'') data of
        Inl e \<Rightarrow> Inl e
      | Inr subscriptions \<Rightarrow>
          if subscriptions = []
          then Inr (JObj [(str ''active_subscriptions'', JNum 0),
                          (str ''monthly_recurring_cost'', JNum 0),
                          (str ''services'', JArr [])])
          else (case subscriptions_loop A subscriptions [] 0 of
                  Inl e \<Rightarrow> Inl e
                | Inr (services, monthly_cost) \<Rightarrow>
                    Inr (JObj [(str ''active_subscriptions'', JNum (real (length subscriptions))),
                               (str ''monthly_recurring_cost'', JNum (ar_round A monthly_cost 2)),
                               (str ''services'', JArr services),
                               (str ''total_annual_cost'',
                                JNum (ar_round A (ar_mul A monthly_cost 12) 2))])))"

subsection \<open>The other sections\<close>

text \<open>
  Of the other sections the model keeps the selection of their items, the result for
  no items and the handling of exceptions.  What they compute from a non-empty
  selection (sums per category and month, rankings, sets of names) is left open: it
  is a parameter, so that what is proved holds whatever these computations give.
  Spending and income catch their own exceptions; travel, bills and investments do
  not.
\<close>

record section_rest =
  spending_rest :: "json list \<Rightarrow> json"
  income_rest :: "json list \<Rightarrow> json"
  travel_rest :: "json list \<Rightarrow> exn + json"
  bills_rest :: "json list \<Rightarrow> exn + json"
  investments_rest :: "json list \<Rightarrow> exn + json"

definition spending_default :: json where
  "spending_default =
     JObj [(str ''total_spending'', JNum 0), (str ''category_breakdown'', JObj []),
           (str ''monthly_trend'', JObj []), (str ''top_merchants'', JObj []),
           (str ''average_monthly_spending'', JNum 0),
           (str ''highest_single_transaction'', JNum 0)]"

definition income_default :: json where
  "income_default =
     JObj [(str ''total_income'', JNum 0), (str ''employers'', JArr []),
           (str ''pay_cycles'', JObj []), (str ''monthly_income_trend'', JObj []),
           (str ''average_monthly_income'', JNum 0)]"

text \<open>
  \<open>[t for t in transactions if t and t.get('transaction_type') == 'expense' and
  t.get('amount')]\<close>\<close>

fun select_expenses :: "json list \<Rightarrow> exn + json list" where
  "select_expenses [] = Inr []"
| "select_expenses (t # transactions) =
     (case (if \<not> truthy t then Inr False
            else (case dict_get t (str ''transaction_type'') JNull of
                    Inl e \<Rightarrow> Inl e
                  | Inr ty \<Rightarrow>
                      if ty \<noteq> JStr (str ''expense'') then Inr False
                      else (case dict_get t (str ''amount'') JNull of
                              Inl e \<Rightarrow> Inl e
                            | Inr amount \<Rightarrow> Inr (truthy amount)))) of
        Inl e \<Rightarrow> Inl e
      | Inr keep \<Rightarrow>
          (case select_expenses transactions of
             Inl e \<Rightarrow> Inl e
           | Inr expenses \<Rightarrow> Inr (if keep then t # expenses else expenses)))"

definition analyze_spending :: "section_rest \<Rightarrow> json list \<Rightarrow> json" where
  "analyze_spending R data =
     (case select_truthy (str ''transaction'') data of
        Inl e \<Rightarrow> spending_default
      | Inr transactions \<Rightarrow>
          (case select_expenses transactions of
             Inl e \<Rightarrow> spending_default
           | Inr expenses \<Rightarrow>
               if expenses = [] then spending_default else spending_rest R expenses))"

definition analyze_income :: "section_rest \<Rightarrow> json list \<Rightarrow> json" where
  "analyze_income R data =
     (case select_truthy (str ''income'') data of
        Inl e \<Rightarrow> income_default
      | Inr income_data \<Rightarrow>
          if income_data = [] then income_default else income_rest R income_data)"

definition analyze_travel :: "section_rest \<Rightarrow> json list \<Rightarrow> exn + json" where
  "analyze_travel R data =
     (case select_truthy (str ''travel'') data of
        Inl e \<Rightarrow> Inl e
      | Inr travel_data \<Rightarrow>
          if travel_data = []
          then Inr (JObj [(str ''total_trips'', JNum 0), (str ''preferred_airlines'', JArr []),
                          (str ''preferred_hotels'', JArr [])])
          else travel_rest R travel_data)"

definition analyze_bills :: "section_rest \<Rightarrow> json list \<Rightarrow> exn + json" where
  "analyze_bills R data =
     (case select_truthy (str ''bills'') data of
        Inl e \<Rightarrow> Inl e
      | Inr bills_data \<Rightarrow>
          if bills_data = []
          then Inr (JObj [(str ''total_bills'', JNum 0), (str ''monthly_bill_amount'', JNum 0),
                          (str ''utility_breakdown'', JObj [])])
          else bills_rest R bills_data)"

definition analyze_investments :: "section_rest \<Rightarrow> json list \<Rightarrow> exn + json" where
  "analyze_investments R data =
     (case select_truthy (str ''investment'') data of
        Inl e \<Rightarrow> Inl e
      | Inr investment_data \<Rightarrow>
          if investment_data = []
          then Inr (JObj [(str ''total_investments'', JNum 0), (str ''platforms'', JArr []),
                          (str ''instruments'', JObj [])])
          else investments_rest R investment_data)"

text \<open>\<open>_calculate_financial_health\<close>\<close>

definition health_score :: "real \<Rightarrow> real \<Rightarrow> real" where
  "health_score savings_rate subscription_ratio =
     (let s0 = 50;
          s1 = (if savings_rate > 20 then s0 + 20
                else if savings_rate > 10 then s0 + 10
                else if savings_rate < 0 then s0 - 20 else s0);
          s2 = (if subscription_ratio < 10 then s1 + 10
                else if subscription_ratio > 25 then s1 - 10 else s1)
      in max 0 (min 100 s2))"

definition calculate_financial_health ::
  "arith \<Rightarrow> section_rest \<Rightarrow> json list \<Rightarrow> exn + json" where
  "calculate_financial_health A R data =
     (let spending_analysis = analyze_spending R data;
          income_analysis = analyze_income R data
      in
      case analyze_subscriptions A data of Inl e \<Rightarrow> Inl e | Inr subscription_analysis \<Rightarrow>
      case dict_get spending_analysis (str ''average_monthly_spending'') (JNum 0) of
        Inl e \<Rightarrow> Inl e | Inr spending_j \<Rightarrow>
      case dict_get income_analysis (str ''average_monthly_income'') (JNum 0) of
        Inl e \<Rightarrow> Inl e | Inr income_j \<Rightarrow>
      case dict_get subscription_analysis (str ''monthly_recurring_cost'') (JNum 0) of
        Inl e \<Rightarrow> Inl e | Inr subscriptions_j \<Rightarrow>
      case num_of income_j of Inl e \<Rightarrow> Inl e | Inr avg_monthly_income \<Rightarrow>
      case num_of spending_j of Inl e \<Rightarrow> Inl e | Inr avg_monthly_spending \<Rightarrow>
      let savings_rate =
            (if avg_monthly_income > 0
             then ar_mul A
                    (ar_truediv A (ar_sub A avg_monthly_income avg_monthly_spending)
                       avg_monthly_income) 100
             else 0)
      in
      case (if avg_monthly_spending > 0
            then (case num_of subscriptions_j of
                    Inl e \<Rightarrow> Inl e
                  | Inr monthly_subscriptions \<Rightarrow>
                      Inr (ar_mul A (ar_truediv A monthly_subscriptions avg_monthly_spending)
                             100))
            else Inr 0) of
        Inl e \<Rightarrow> Inl e
      | Inr subscription_ratio \<Rightarrow>
          Inr (JObj [(str ''savings_rate'', JNum (ar_round A savings_rate 1)),
                     (str ''subscription_to_spending_ratio'',
                      JNum (ar_round A subscription_ratio 1)),
                     (str ''financial_health_score'',
                      JNum (health_score savings_rate subscription_ratio)),
                     (str ''monthly_surplus_deficit'',
                      JNum (ar_round A (ar_sub A avg_monthly_income avg_monthly_spending) 2))]))"

text \<open>\<open>len([d for d in data if d.get(k)])\<close>\<close>

definition count_truthy :: "pystr \<Rightarrow> json list \<Rightarrow> exn + nat" where
  "count_truthy k data =
     (case select_truthy k data of Inl e \<Rightarrow> Inl e | Inr vs \<Rightarrow> Inr (length vs))"

text \<open>\<open>_generate_summary\<close>; \<open>now\<close> is the formatted clock.\<close>

definition generate_summary :: "pystr \<Rightarrow> json list \<Rightarrow> exn + json" where
  "generate_summary now data =
     (case count_truthy (str ''is_relevant'') data of Inl e \<Rightarrow> Inl e | Inr financial_emails \<Rightarrow>
      case count_truthy (str ''transaction'') data of Inl e \<Rightarrow> Inl e | Inr transactions \<Rightarrow>
      case count_truthy (str ''income'') data of Inl e \<Rightarrow> Inl e | Inr income_entries \<Rightarrow>
      case count_truthy (str ''subscription'') data of Inl e \<Rightarrow> Inl e | Inr subscriptions \<Rightarrow>
        Inr (JObj [(str ''total_emails_analyzed'', JNum (real (length data))),
                   (str ''financial_emails_found'', JNum (real financial_emails)),
                   (str ''transactions_extracted'', JNum (real transactions)),
                   (str ''income_entries_found'', JNum (real income_entries)),
                   (str ''subscriptions_identified'', JNum (real subscriptions)),
                   (str ''analysis_date'', JStr now)]))"

text \<open>The default structure that the handler of \<open>generate_comprehensive_insights\<close> returns.\<close>

definition default_insights :: "nat \<Rightarrow> json" where
  "default_insights n =
     JObj [(str ''spending_analysis'', spending_default),
           (str ''income_analysis'', income_default),
           (str ''subscription_analysis'',
            JObj [(str ''active_subscriptions'', JNum 0), (str ''monthly_recurring_cost'', JNum 0),
                  (str ''services'', JArr []), (str ''total_annual_cost'', JNum 0)]),
           (str ''travel_analysis'',
            JObj [(str ''total_trips'', JNum 0), (str ''preferred_airlines'', JArr []),
                  (str ''preferred_hotels'', JArr [])]),
           (str ''bills_analysis'',
            JObj [(str ''total_bills'', JNum 0), (str ''monthly_bill_amount'', JNum 0),
                  (str ''utility_breakdown'', JObj [])]),
           (str ''investment_analysis'',
            JObj [(str ''total_investments'', JNum 0), (str ''platforms'', JArr []),
                  (str ''instruments'', JObj [])]),
           (str ''financial_health'',
            JObj [(str ''savings_rate'', JNum 0), (str ''subscription_to_spending_ratio'', JNum 0),
                  (str ''financial_health_score'', JNum 50),
                  (str ''monthly_surplus_deficit'', JNum 0)]),
           (str ''summary'',
            JObj [(str ''total_emails_analyzed'', JNum (real n)),
                  (str ''financial_emails_found'', JNum 0),
                  (str ''transactions_extracted'', JNum 0),
                  (str ''income_entries_found'', JNum 0),
                  (str ''subscriptions_identified'', JNum 0),
                  (str ''analysis_date'', JStr (str ''2025-08-20''))])]"

definition insights_body ::
  "arith \<Rightarrow> section_rest \<Rightarrow> pystr \<Rightarrow> json list \<Rightarrow> exn + json" where
  "insights_body A R now extracted_data =
     (case filter_relevant extracted_data of Inl e \<Rightarrow> Inl e | Inr relevant_data \<Rightarrow>
      case analyze_subscriptions A relevant_data of Inl e \<Rightarrow> Inl e | Inr subscription_analysis \<Rightarrow>
      case analyze_travel R relevant_data of Inl e \<Rightarrow> Inl e | Inr travel_analysis \<Rightarrow>
      case analyze_bills R relevant_data of Inl e \<Rightarrow> Inl e | Inr bills_analysis \<Rightarrow>
      case analyze_investments R relevant_data of Inl e \<Rightarrow> Inl e | Inr investment_analysis \<Rightarrow>
      case calculate_financial_health A R relevant_data of Inl e \<Rightarrow> Inl e | Inr financial_health \<Rightarrow>
      case generate_summary now relevant_data of Inl e \<Rightarrow> Inl e | Inr summary \<Rightarrow>
        Inr (JObj [(str ''spending_analysis'', analyze_spending R relevant_data),
                   (str ''income_analysis'', analyze_income R relevant_data),
                   (str ''subscription_analysis'', subscription_analysis),
                   (str ''travel_analysis'', travel_analysis),
                   (str ''bills_analysis'', bills_analysis),
                   (str ''investment_analysis'', investment_analysis),
                   (str ''financial_health'', financial_health),
                   (str ''summary'', summary)]))"

definition generate_comprehensive_insights ::
  "arith \<Rightarrow> section_rest \<Rightarrow> pystr \<Rightarrow> json list \<Rightarrow> json" where
  "generate_comprehensive_insights A R now extracted_data =
     (case insights_body A R now extracted_data of
        Inr insights \<Rightarrow> insights
      | Inl e \<Rightarrow> default_insights (length extracted_data))"

text \<open>A key of a section of the report.\<close>

definition section_key :: "json \<Rightarrow> string \<Rightarrow> string \<Rightarrow> json option" where
  "section_key report section key =
     (case dict_lookup report (str section) of
        None \<Rightarrow> None
      | Some d \<Rightarrow> dict_lookup d (str key))"

subsection \<open>The normalisation of billing cycles, in the words of the specification\<close>

text \<open>
  Yearly contributes the amount divided by 12, monthly the amount, weekly the amount
  times 4.33; a billing cycle that is absent counts as monthly, any other value
  contributes nothing.  The monthly cost is the sum of the contributions, added up
  from 0 in the order of the list.
\<close>

definition cycle_of :: "json \<Rightarrow> json" where
  "cycle_of sub =
     (case dict_lookup sub (str ''billing_cycle'') of
        None \<Rightarrow> JStr (str ''monthly'')
      | Some c \<Rightarrow> c)"

definition amount_of :: "json \<Rightarrow> json" where
  "amount_of sub = (case dict_lookup sub (str ''amount'') of None \<Rightarrow> JNum 0 | Some a \<Rightarrow> a)"

definition number :: "json \<Rightarrow> real" where
  "number v = (case v of JNum x \<Rightarrow> x | JBool b \<Rightarrow> (if b then 1 else 0) | _ \<Rightarrow> 0)"

definition monthly_equivalent :: "arith \<Rightarrow> json \<Rightarrow> real option" where
  "monthly_equivalent A sub =
     (if cycle_of sub = JStr (str ''yearly'')
      then Some (ar_truediv A (number (amount_of sub)) 12)
      else if cycle_of sub = JStr (str ''monthly'')
      then Some (number (amount_of sub))
      else if cycle_of sub = JStr (str ''weekly'')
      then Some (ar_mul A (number (amount_of sub)) (ar_literal A (433 / 100)))
      else None)"

definition monthly_sum :: "arith \<Rightarrow> json list \<Rightarrow> real" where
  "monthly_sum A subs = foldl (ar_add A) 0 (List.map_filter (monthly_equivalent A) subs)"

definition numeric_subscription :: "json \<Rightarrow> bool" where
  "numeric_subscription sub =
     (is_dict sub \<and> (case amount_of sub of JNum x \<Rightarrow> True | JBool b \<Rightarrow> True | _ \<Rightarrow> False))"

subsection \<open>Reading results\<close>

text \<open>The \<open>email_id\<close> values of the records returned, and a key of a returned report.\<close>

definition tags_of :: "(exn + json list) \<Rightarrow> json option list option" where
  "tags_of r =
     (case r of
        Inl e \<Rightarrow> None
      | Inr records \<Rightarrow> Some (map (\<lambda>record. dict_lookup record (str ''email_id'')) records))"

definition report_key :: "exn + json \<Rightarrow> string \<Rightarrow> json option" where
  "report_key r key = (case r of Inl e \<Rightarrow> None | Inr d \<Rightarrow> dict_lookup d (str key))"

section \<open>Predicates on runs\<close>

text \<open>The progress values that a log shows for a job while its status is \<open>Running\<close>.\<close>

definition running_progress :: "job_id \<Rightarrow> 'rep store list \<Rightarrow> real list" where
  "running_progress job_id stores =
     map progress (filter (\<lambda>job. status job = Running) (job_trace job_id stores))"

text \<open>
  \<open>mono_upto job_id b\<close>: these values never decrease and stay below \<open>b\<close>.
  \<open>triple P m Q\<close>: from a state with \<open>P\<close>, step \<open>m\<close> ends, normally or by an
  exception, in a state with \<open>Q\<close>.  \<open>frame\<close>: every store of the run has the keys of
  the first store and its values outside the job's key.
\<close>

definition mono_upto :: "job_id \<Rightarrow> real \<Rightarrow> 'rep run_state \<Rightarrow> bool" where
  "mono_upto job_id b s =
     (sorted (running_progress job_id (snd s)) \<and> (\<forall>x \<in> set (running_progress job_id (snd s)). x \<le> b))"

definition triple ::
  "('rep run_state \<Rightarrow> bool) \<Rightarrow> ('a, 'rep) step \<Rightarrow> ('rep run_state \<Rightarrow> bool) \<Rightarrow> bool" where
  "triple P m Q = (\<forall>s r s'. P s \<longrightarrow> m s = (r, s') \<longrightarrow> Q s')"

definition frame :: "job_id \<Rightarrow> 'rep store \<Rightarrow> 'rep run_state \<Rightarrow> bool" where
  "frame job_id jobs0 s =
     (\<forall>jobs \<in> set (fst s # snd s). dom jobs = dom jobs0 \<and> (\<forall>k. k \<noteq> job_id \<longrightarrow> jobs k = jobs0 k))"

definition untouched :: "'rep store \<Rightarrow> 'rep run_state \<Rightarrow> bool" where
  "untouched jobs0 s = (\<forall>jobs \<in> set (fst s # snd s). jobs = jobs0)"

text \<open>The values that the parsing loop and the chunk loop write.\<close>

definition parse_progress :: "nat \<Rightarrow> nat \<Rightarrow> real" where
  "parse_progress n i = py_round (20 + (real i / real n) * 30) 1"

definition chunk_progress :: "nat \<Rightarrow> nat \<Rightarrow> nat \<Rightarrow> real" where
  "chunk_progress nb n c =
     py_round (60 + (real (min (min (c + max_concurrent_batches) nb * batch_size) n) / real n) * 30) 1"

text \<open>\<open>results_ok\<close>: in every store of the run, a completed job has its results.\<close>

definition results_ok :: "job_id \<Rightarrow> 'rep run_state \<Rightarrow> bool" where
  "results_ok job_id s =
     (\<forall>jobs \<in> set (fst s # snd s).
        case jobs job_id of None \<Rightarrow> True
        | Some job \<Rightarrow> status job = Completed \<longrightarrow> results job \<noteq> None)"

section \<open>Sample inputs\<close>

definition sample_sale :: email where
  "sample_sale = \<lparr> id' = str ''m1'', internalDate = str ''1'', from' = str ''a@b.in'',
                    subject = str ''Mega Sale'', bodyText = str ''card ending 1234'' \<rparr>"

definition sample_charge :: email where
  "sample_charge = \<lparr> id' = str ''m2'', internalDate = str ''2'', from' = str ''alerts@hdfcbank.net'',
                      subject = str ''Alert'',
                      bodyText = str ''card ending 4532, charged '' @ [8377] @ str ''499'' \<rparr>"

definition sample_visa :: email where
  "sample_visa = \<lparr> id' = str ''m3'', internalDate = str ''3'', from' = str ''x@y.z'',
                    subject = str ''Your Visa'', bodyText = str ''hello'' \<rparr>"



definition sample_insight :: "email \<Rightarrow> json" where
  "sample_insight e = JObj [(str ''is_relevant'', JBool True), (str ''email_id'', JStr (id' e))]"

definition sample_job_id :: job_id where
  "sample_job_id = str ''job-1''"

definition sample_jobs :: "unit store" where
  "sample_jobs = snd (start_processing_job sample_job_id 0 Map.empty)"

text \<open>Job records and stores for a sequence of polls.\<close>

definition sample_results :: "unit final_results" where
  "sample_results =
     \<lparr> analytics = (), classification_stats = get_classification_stats
           \<lparr>definitely_financial = [sample_charge], maybe_financial = [], probably_not = []\<rparr>,
       extracted_insights = [sample_insight sample_charge],
       metadata = \<lparr> total_emails_fetched = 1, financial_emails_processed = 1,
                    ai_processing_reduction = 0, processing_completed_at = 9 \<rparr> \<rparr>"

definition poll_job ::
  "job_status \<Rightarrow> real \<Rightarrow> unit final_results option \<Rightarrow> pystr option \<Rightarrow> unit job" where
  "poll_job st p res err =
     \<lparr> status = st, progress = p, total = 0, current_step = str ''step'',
       start_time = 0, updated_at = Some 1, results = res, error = err \<rparr>"

definition poll_store ::
  "job_status \<Rightarrow> real \<Rightarrow> unit final_results option \<Rightarrow> pystr option \<Rightarrow> unit store" where
  "poll_store st p res err = [sample_job_id \<mapsto> poll_job st p res err]"

text \<open>An extractor without a model, and an email with an amount that is too large.\<close>

definition sample_extractor :: extractor where
  "sample_extractor = \<lparr> ex_lib = ascii_lib, ex_model = None, ex_today = str ''2025-08-20'' \<rparr>"

definition sample_big :: email where
  "sample_big = \<lparr> id' = str ''m4'', internalDate = str ''4'', from' = str ''noreply@swiggy.in'',
                   subject = str ''Swiggy payment'', bodyText = str ''rs 5000000'' \<rparr>"

text \<open>
  Two models: one that always replies with the array \<open>[1]\<close>, and one that replies to a
  batch with an array of one record and to a single email with a record.
\<close>

definition always_number :: ai_model where
  "always_number p k = Inr (JArr [JNum 1])"

definition one_of_two :: ai_model where
  "one_of_two p k =
     (case p of
        BatchPrompt emails \<Rightarrow> Inr (JArr [JObj [(str ''is_relevant'', JBool True)]])
      | SinglePrompt sender subj content \<Rightarrow> Inr (JObj [(str ''is_relevant'', JBool False)]))"

text \<open>
  A run over the three sample emails: the sale mail is dropped by the classifier, the
  other two form one batch.  The extractor either answers, or it is the extractor
  above with the model that always replies with the array \<open>[1]\<close>.
\<close>

definition sample_services :: "bool \<Rightarrow> (email, unit) services" where
  "sample_services extractor_fails =
     \<lparr> svc_fetch_emails_last_6_months = Inr [sample_sale, sample_charge, sample_visa],
       svc_parse_email = Inr,
       svc_classify_emails_batch = (\<lambda>emails. Inr (classify_emails_batch ascii_lib emails)),
       svc_get_classification_stats = (\<lambda>c. Inr (get_classification_stats c)),
       svc_extract_insights_batch =
         (\<lambda>idx batch n. if extractor_fails
                         then fst (extract_insights_batch
                                     (sample_extractor\<lparr> ex_model := Some always_number \<rparr>)
                                     batch (int n) 0)
                         else Inr (map sample_insight batch)),
       svc_generate_comprehensive_insights = (\<lambda>insights. Inr ()),
       svc_now = real \<rparr>"

text \<open>The stores that the run with the answering extractor writes, in order.\<close>

definition sample_log :: "unit store list" where
  "sample_log =
     snd (snd (process_emails_async (sample_services False) sample_job_id (sample_jobs, [])))"

text \<open>An insight record with a subscription.\<close>

definition sample_subscription :: "real \<Rightarrow> string \<Rightarrow> json" where
  "sample_subscription amount cycle =
     JObj [(str ''is_relevant'', JBool True),
           (str ''subscription'',
            JObj [(str ''service'', JStr (str ''Netflix'')), (str ''amount'', JNum amount),
                  (str ''billing_cycle'', JStr (str cycle))])]"

section \<open>Running the reference matcher\<close>

lemma repeat_match_numeral:
  "repeat_match m (numeral k) = then_match m (repeat_match m (pred_numeral k))"
  by (simp add: numeral_eq_Suc)

lemmas rx_eval = classify_email_def classify_text_def ascii_lib_def exclude_patterns_def
  definitely_financial_patterns_def maybe_financial_patterns_def rx_search_def str_def
  ascii_lower_def lower_char_def is_upper_def word_of_def unless_card_def same_char_def
  is_word_def is_digit_def is_space_def then_match_def
  in_class_def currency_amount_def Let_def repeat_match_numeral

section \<open>The classifier partitions its input\<close>

lemma classify_loop_buckets:
  "definitely_financial (classify_loop L emails acc) =
     definitely_financial acc @ filter (\<lambda>e. classify_email L e = DEFINITELY_FINANCIAL) emails \<and>
   maybe_financial (classify_loop L emails acc) =
     maybe_financial acc @ filter (\<lambda>e. classify_email L e = MAYBE_FINANCIAL) emails \<and>
   probably_not (classify_loop L emails acc) =
     probably_not acc @ filter (\<lambda>e. classify_email L e = PROBABLY_NOT_FINANCIAL) emails"
proof (induction emails arbitrary: acc)
  case Nil
  show ?case by simp
next
  case (Cons e es)
  show ?case
    by (cases "classify_email L e") (simp_all add: Cons.IH Let_def)
qed

lemma three_way_length:
  "length (filter (\<lambda>e. f e = DEFINITELY_FINANCIAL) xs)
   + length (filter (\<lambda>e. f e = MAYBE_FINANCIAL) xs)
   + length (filter (\<lambda>e. f e = PROBABLY_NOT_FINANCIAL) xs) = length xs"
proof (induction xs)
  case Nil
  show ?case by simp
next
  case (Cons x xs)
  then show ?case by (cases "f x") simp_all
qed

lemma three_way_mset:
  "mset (filter (\<lambda>e. f e = DEFINITELY_FINANCIAL) xs)
   + mset (filter (\<lambda>e. f e = MAYBE_FINANCIAL) xs)
   + mset (filter (\<lambda>e. f e = PROBABLY_NOT_FINANCIAL) xs) = mset xs"
proof (induction xs)
  case Nil
  show ?case by simp
next
  case (Cons x xs)
  then show ?case by (cases "f x") simp_all
qed

lemma sample_sale_class: "classify_email ascii_lib sample_sale = PROBABLY_NOT_FINANCIAL"
  by (simp add: rx_eval sample_sale_def)

lemma sample_charge_class: "classify_email ascii_lib sample_charge = DEFINITELY_FINANCIAL"
  by (simp add: rx_eval sample_charge_def)

lemma sample_visa_class: "classify_email ascii_lib sample_visa = MAYBE_FINANCIAL"
  by (simp add: rx_eval sample_visa_def)

lemmas sample_classes = sample_sale_class sample_charge_class sample_visa_class

text \<open>
  Claim C2.  For every list of emails (and whatever the regular-expression library
  computes), each bucket of \<open>classify_emails_batch\<close> is the input filtered, in input
  order, by the class that \<open>classify_email\<close> gives the email on its own; the sizes
  of the buckets add up to the size of the input; as multisets the buckets add up to
  the input, so every occurrence of an email is in exactly one bucket; and no email
  is in two buckets.
\<close>

theorem classify_emails_batch_partition:
  "(let r = classify_emails_batch L emails in
     definitely_financial r = filter (\<lambda>e. classify_email L e = DEFINITELY_FINANCIAL) emails \<and>
     maybe_financial r = filter (\<lambda>e. classify_email L e = MAYBE_FINANCIAL) emails \<and>
     probably_not r = filter (\<lambda>e. classify_email L e = PROBABLY_NOT_FINANCIAL) emails \<and>
     length (definitely_financial r) + length (maybe_financial r) + length (probably_not r)
       = length emails \<and>
     mset (definitely_financial r) + mset (maybe_financial r) + mset (probably_not r)
       = mset emails \<and>
     set (definitely_financial r) \<inter> set (maybe_financial r) = {} \<and>
     set (definitely_financial r) \<inter> set (probably_not r) = {} \<and>
     set (maybe_financial r) \<inter> set (probably_not r) = {})"
proof -
  define r where "r = classify_emails_batch L emails"
  have b: "definitely_financial r = filter (\<lambda>e. classify_email L e = DEFINITELY_FINANCIAL) emails"
          "maybe_financial r = filter (\<lambda>e. classify_email L e = MAYBE_FINANCIAL) emails"
          "probably_not r = filter (\<lambda>e. classify_email L e = PROBABLY_NOT_FINANCIAL) emails"
    using classify_loop_buckets [of L emails
            "\<lparr>definitely_financial = [], maybe_financial = [], probably_not = []\<rparr>"]
    by (simp_all add: r_def classify_emails_batch_def)
  have len: "length (definitely_financial r) + length (maybe_financial r)
               + length (probably_not r) = length emails"
    unfolding b by (rule three_way_length)
  have ms: "mset (definitely_financial r) + mset (maybe_financial r) + mset (probably_not r)
              = mset emails"
    unfolding b by (rule three_way_mset)
  have d: "set (definitely_financial r) \<inter> set (maybe_financial r) = {}"
          "set (definitely_financial r) \<inter> set (probably_not r) = {}"
          "set (maybe_financial r) \<inter> set (probably_not r) = {}"
    unfolding b by auto
  from b len ms d show ?thesis
    unfolding r_def [symmetric] Let_def by blast
qed

theorem classify_emails_batch_partition_witness:
  "(let r = classify_emails_batch ascii_lib [sample_sale, sample_charge, sample_visa, sample_charge]
    in definitely_financial r = [sample_charge, sample_charge] \<and>
       maybe_financial r = [sample_visa] \<and>
       probably_not r = [sample_sale])"
  using classify_emails_batch_partition
          [of ascii_lib "[sample_sale, sample_charge, sample_visa, sample_charge]"]
  by (simp add: Let_def sample_classes)

section \<open>Exclude rules win\<close>

lemma any_pattern_matches_iff:
  "any_pattern_matches L ps text = (\<exists>p \<in> set ps. re_search L p True text \<noteq> None)"
  by (induction ps) auto

text \<open>
  Claim C7.  For every email and every regular-expression library: when the
  normalised text of the email (subject, sender and the first 200 characters of the
  body, lower-cased) matches some exclude pattern, \<open>classify_email\<close> answers
  \<open>PROBABLY_NOT_FINANCIAL\<close>, whatever else the text matches.
\<close>

theorem exclude_wins:
  "p \<in> set exclude_patterns \<Longrightarrow> re_search L p True (classify_text L email) \<noteq> None
   \<Longrightarrow> classify_email L email = PROBABLY_NOT_FINANCIAL"
  by (auto simp: classify_email_def Let_def any_pattern_matches_iff)

text \<open>
  The sample matches the exclude word \<open>sale\<close> and the definitely-financial pattern
  \<open>card ending\<close>.
\<close>

theorem exclude_wins_witness:
  "exclude_patterns ! 1 \<in> set exclude_patterns \<and>
   re_search ascii_lib (exclude_patterns ! 1) True (classify_text ascii_lib sample_sale) \<noteq> None \<and>
   re_search ascii_lib (definitely_financial_patterns ! 1) True
     (classify_text ascii_lib sample_sale) \<noteq> None \<and>
   classify_email ascii_lib sample_sale = PROBABLY_NOT_FINANCIAL"
proof -
  have m: "exclude_patterns ! 1 \<in> set exclude_patterns"
    by (simp add: exclude_patterns_def)
  have x: "re_search ascii_lib (exclude_patterns ! 1) True
             (classify_text ascii_lib sample_sale) \<noteq> None"
    by (simp add: rx_eval sample_sale_def)
  have d: "re_search ascii_lib (definitely_financial_patterns ! 1) True
             (classify_text ascii_lib sample_sale) \<noteq> None"
    by (simp add: rx_eval sample_sale_def)
  from m x d exclude_wins [OF m x] show ?thesis by blast
qed

section \<open>The job store is changed only at the job's own key\<close>

lemma update_job_absent:
  "jobs job_id = None \<Longrightarrow> update_job now job_id st prog step res err jobs = Inr jobs"
  by (simp add: update_job_def)

lemma update_job_other:
  "update_job now job_id st prog step res err jobs = Inr jobs' \<Longrightarrow> k \<noteq> job_id
   \<Longrightarrow> jobs' k = jobs k"
  by (auto simp: update_job_def Let_def split: option.splits if_splits)

lemma update_job_dom:
  "update_job now job_id st prog step res err jobs = Inr jobs' \<Longrightarrow> dom jobs' = dom jobs"
  by (auto simp: update_job_def Let_def split: option.splits if_splits)

lemma cleanup_old_jobs_sub:
  "cleanup_old_jobs now h jobs k = Some j \<Longrightarrow> jobs k = Some j"
  by (auto simp: cleanup_old_jobs_def Let_def split: option.splits if_splits)

section \<open>Steps of a run\<close>

lemma tripleI: "(\<And>s r s'. P s \<Longrightarrow> m s = (r, s') \<Longrightarrow> Q s') \<Longrightarrow> triple P m Q"
  by (simp add: triple_def)

lemma tripleD: "triple P m Q \<Longrightarrow> P s \<Longrightarrow> m s = (r, s') \<Longrightarrow> Q s'"
  unfolding triple_def by blast

lemma triple_call: "triple P (call r) P"
  by (simp add: triple_def call_def)

lemma triple_weaken:
  "triple P m Q \<Longrightarrow> (\<And>s. P' s \<Longrightarrow> P s) \<Longrightarrow> (\<And>s. Q s \<Longrightarrow> Q' s) \<Longrightarrow> triple P' m Q'"
  unfolding triple_def by blast

lemma triple_upd_dep:
  "(\<And>res. triple P (upd env job_id st prog step (Some res) err) P)
   \<Longrightarrow> triple P (\<lambda>s. upd env job_id st prog step (Some (g s)) err s) P"
  unfolding triple_def by blast

lemma triple_bind:
  assumes "triple P m Q" and "\<And>a. triple Q (f a) R" and "\<And>s. Q s \<Longrightarrow> R s"
  shows "triple P (bind m f) R"
proof (rule tripleI)
  fix s r s'
  assume P: "P s" and run: "bind m f s = (r, s')"
  obtain r1 s1 where m: "m s = (r1, s1)" by (cases "m s")
  from assms(1) P m have Q: "Q s1" by (rule tripleD)
  show "R s'"
  proof (cases r1)
    case (Inl e)
    with run m have "s' = s1" by (simp add: bind_def)
    with Q assms(3) show ?thesis by simp
  next
    case (Inr a)
    with run m have "f a s1 = (r, s')" by (simp add: bind_def)
    with assms(2) Q show ?thesis by (auto dest: tripleD)
  qed
qed

lemma triple_bind_same:
  "triple P m P \<Longrightarrow> (\<And>a. triple P (f a) P) \<Longrightarrow> triple P (bind m f) P"
  by (rule triple_bind)

lemma upd_frame: "triple (frame job_id jobs0) (upd env job_id st prog step res err) (frame job_id jobs0)"
proof (rule tripleI)
  fix s r s'
  assume F: "frame job_id jobs0 s"
    and run: "upd env job_id st prog step res err s = (r, s')"
  show "frame job_id jobs0 s'"
  proof (cases "update_job (svc_now env (length (snd s))) job_id st prog step res err (fst s)")
    case (Inl e)
    with run have "s' = s" by (simp add: upd_def)
    with F show ?thesis by simp
  next
    case (Inr jobs')
    with run have s': "s' = (jobs', snd s @ [jobs'])" by (simp add: upd_def)
    have "dom jobs' = dom (fst s)" "\<forall>k. k \<noteq> job_id \<longrightarrow> jobs' k = fst s k"
      by (simp_all add: update_job_dom [OF Inr] update_job_other [OF Inr])
    with F show ?thesis unfolding s' frame_def by auto
  qed
qed

lemma upd_untouched:
  "jobs0 job_id = None \<Longrightarrow> triple (untouched jobs0) (upd env job_id st prog step res err) (untouched jobs0)"
  by (rule tripleI) (auto simp: upd_def untouched_def update_job_absent split: sum.splits)

lemma parse_loop_pres:
  assumes "\<And>st prog step res err.
             (st = Completed \<longrightarrow> res \<noteq> None) \<Longrightarrow> triple P (upd env job_id st prog step res err) P"
  shows "triple P (parse_loop env job_id n i emails parsed) P"
proof (induction emails arbitrary: i parsed)
  case Nil
  show ?case by (simp add: triple_call)
next
  case (Cons e es)
  show ?case
    unfolding parse_loop.simps
    by (intro triple_bind_same triple_call assms Cons.IH)
       (simp_all add: assms triple_call)
qed

lemma collect_results_pres:
  assumes "\<And>st prog step res err.
             (st = Completed \<longrightarrow> res \<noteq> None) \<Longrightarrow> triple P (upd env job_id st prog step res err) P"
  shows "triple P (collect_results env job_id rs extracted) P"
proof (induction rs arbitrary: extracted)
  case Nil
  show ?case by (simp add: triple_call)
next
  case (Cons r rs)
  show ?case
  proof (cases r)
    case (Inl e)
    then show ?thesis
      by (simp only: collect_results.simps sum.case)
         (intro triple_bind_same assms Cons.IH, simp)
  next
    case (Inr ins)
    then show ?thesis
      by (simp only: collect_results.simps sum.case Cons.IH)
  qed
qed

lemma chunk_loop_pres:
  assumes "\<And>st prog step res err.
             (st = Completed \<longrightarrow> res \<noteq> None) \<Longrightarrow> triple P (upd env job_id st prog step res err) P"
  shows "triple P (chunk_loop env job_id batches n css extracted) P"
proof (induction css arbitrary: extracted)
  case Nil
  show ?case by (simp add: triple_call)
next
  case (Cons c cs)
  show ?case
    unfolding chunk_loop.simps Let_def
    by (intro triple_bind_same assms Cons.IH collect_results_pres) simp_all
qed

lemma body_pres:
  assumes u: "\<And>st prog step res err.
             (st = Completed \<longrightarrow> res \<noteq> None) \<Longrightarrow> triple P (upd env job_id st prog step res err) P"
  shows "triple P (process_emails_body env job_id) P"
  unfolding process_emails_body_def Let_def
  by (intro triple_bind_same triple_call u parse_loop_pres chunk_loop_pres triple_upd_dep)
     simp_all

lemma async_pres:
  assumes u: "\<And>st prog step res err.
             (st = Completed \<longrightarrow> res \<noteq> None) \<Longrightarrow> triple P (upd env job_id st prog step res err) P"
  shows "triple P (process_emails_async env job_id) P"
proof (rule tripleI)
  fix s r s'
  assume P: "P s" and run: "process_emails_async env job_id s = (r, s')"
  obtain r1 s1 where b: "process_emails_body env job_id s = (r1, s1)"
    by (cases "process_emails_body env job_id s")
  from body_pres [OF u] P b have P1: "P s1" by (rule tripleD)
  show "P s'"
  proof (cases r1)
    case (Inl e)
    with run b have "upd env job_id Failed (Some 0) (str ''Error: '' @ exn_str e) None (Some (exn_str e)) s1 = (r, s')"
      by (simp add: process_emails_async_def)
    moreover have "triple P
        (upd env job_id Failed (Some 0) (str ''Error: '' @ exn_str e) None (Some (exn_str e))) P"
      by (rule u) simp
    ultimately show ?thesis using P1 by (auto dest: tripleD)
  next
    case (Inr a)
    with run b have "s' = s1" by (simp add: process_emails_async_def)
    with P1 show ?thesis by simp
  qed
qed

lemma round_half_even_bounds: "\<lfloor>x\<rfloor> \<le> round_half_even x \<and> round_half_even x \<le> \<lfloor>x\<rfloor> + 1"
  by (simp add: round_half_even_def Let_def)

lemma round_half_even_mono:
  assumes "x \<le> y"
  shows "round_half_even x \<le> round_half_even y"
proof (cases "\<lfloor>x\<rfloor> = \<lfloor>y\<rfloor>")
  case True
  with assms have "x - of_int \<lfloor>x\<rfloor> \<le> y - of_int \<lfloor>y\<rfloor>" by simp
  with True show ?thesis
    by (auto simp: round_half_even_def Let_def)
next
  case False
  with assms have "\<lfloor>x\<rfloor> < \<lfloor>y\<rfloor>"
    using floor_mono [of x y] by linarith
  with round_half_even_bounds [of x] round_half_even_bounds [of y]
  show ?thesis by linarith
qed

lemma py_round_mono: "x \<le> y \<Longrightarrow> py_round x n \<le> py_round y n"
  by (simp add: py_round_def divide_right_mono round_half_even_mono)

lemma round_half_even_of_int: "round_half_even (of_int k) = k"
  by (simp add: round_half_even_def)

lemma py_round_int: "py_round (of_int k) n = of_int k"
proof -
  have "of_int k * (10::real) ^ n = of_int (k * 10 ^ n)" by simp
  then have "round_half_even (of_int k * 10 ^ n) = k * 10 ^ n"
    by (simp only: round_half_even_of_int)
  then show ?thesis by (simp add: py_round_def)
qed

lemma py_round_numeral: "py_round (numeral k) n = numeral k"
  using py_round_int [of "numeral k" n] by simp

lemma py_round_between:
  "numeral a \<le> x \<Longrightarrow> x \<le> numeral b \<Longrightarrow> numeral a \<le> py_round x n \<and> py_round x n \<le> numeral b"
  using py_round_mono [of "numeral a" x n] py_round_mono [of x "numeral b" n]
  by (simp add: py_round_numeral)

lemma job_trace_snoc:
  "job_trace job_id (stores @ [jobs]) =
     job_trace job_id stores @ (case jobs job_id of None \<Rightarrow> [] | Some j \<Rightarrow> [j])"
  by (simp add: job_trace_def List.map_filter_def split: option.splits)

lemma running_progress_snoc:
  "running_progress job_id (stores @ [jobs]) =
     running_progress job_id stores @
       (case jobs job_id of None \<Rightarrow> []
        | Some j \<Rightarrow> if status j = Running then [progress j] else [])"
  by (simp add: running_progress_def job_trace_snoc split: option.splits)

lemma update_job_written:
  "update_job now job_id st prog step res err jobs = Inr jobs' \<Longrightarrow>
   (case jobs' job_id of None \<Rightarrow> True
    | Some j \<Rightarrow> status j = st \<and> (\<exists>p. prog = Some p \<and> progress j = py_round p 1))"
  by (auto simp: update_job_def Let_def split: option.splits if_splits)

lemma mono_upto_weaken: "b \<le> b' \<Longrightarrow> mono_upto job_id b s \<Longrightarrow> mono_upto job_id b' s"
  by (fastforce simp: mono_upto_def)

lemma upd_mono:
  assumes "b \<le> py_round p 1" and "py_round p 1 \<le> b'"
  shows "triple (mono_upto job_id b) (upd env job_id Running (Some p) step res err)
           (mono_upto job_id b')"
proof (rule tripleI)
  fix s r s'
  assume M: "mono_upto job_id b s"
    and run: "upd env job_id Running (Some p) step res err s = (r, s')"
  from assms have bb: "b \<le> b'" by simp
  show "mono_upto job_id b' s'"
  proof (cases "update_job (svc_now env (length (snd s))) job_id Running (Some p) step res err (fst s)")
    case (Inl e)
    with run have "s' = s" by (simp add: upd_def)
    with M bb show ?thesis by (simp add: mono_upto_weaken)
  next
    case (Inr jobs')
    with run have s': "s' = (jobs', snd s @ [jobs'])" by (simp add: upd_def)
    from update_job_written [OF Inr]
    have w: "case jobs' job_id of None \<Rightarrow> True | Some j \<Rightarrow> status j = Running \<and> progress j = py_round p 1"
      by (auto split: option.splits)
    show ?thesis
    proof (cases "jobs' job_id")
      case None
      with M bb show ?thesis
        unfolding s' by (simp add: mono_upto_def running_progress_snoc) fastforce
    next
      case (Some j)
      with w have "status j = Running" "progress j = py_round p 1" by simp_all
      with Some M assms show ?thesis
        unfolding s' by (simp add: mono_upto_def running_progress_snoc sorted_append) fastforce
    qed
  qed
qed

lemma upd_mono_none:
  "triple (mono_upto job_id b) (upd env job_id st None step res err) (mono_upto job_id b)"
proof (rule tripleI)
  fix s r s'
  assume M: "mono_upto job_id b s"
    and run: "upd env job_id st None step res err s = (r, s')"
  show "mono_upto job_id b s'"
  proof (cases "update_job (svc_now env (length (snd s))) job_id st None step res err (fst s)")
    case (Inl e)
    with run have "s' = s" by (simp add: upd_def)
    with M show ?thesis by simp
  next
    case (Inr jobs')
    with run have s': "s' = (jobs', snd s @ [jobs'])" by (simp add: upd_def)
    from update_job_written [OF Inr] have "jobs' job_id = None"
      by (auto split: option.splits)
    with M show ?thesis
      unfolding s' by (simp add: mono_upto_def running_progress_snoc)
  qed
qed

lemma upd_mono_other:
  assumes "st \<noteq> Running"
  shows "triple (mono_upto job_id b) (upd env job_id st prog step res err) (mono_upto job_id b)"
proof (rule tripleI)
  fix s r s'
  assume M: "mono_upto job_id b s"
    and run: "upd env job_id st prog step res err s = (r, s')"
  show "mono_upto job_id b s'"
  proof (cases "update_job (svc_now env (length (snd s))) job_id st prog step res err (fst s)")
    case (Inl e)
    with run have "s' = s" by (simp add: upd_def)
    with M show ?thesis by simp
  next
    case (Inr jobs')
    with run have s': "s' = (jobs', snd s @ [jobs'])" by (simp add: upd_def)
    from update_job_written [OF Inr] assms
    have "case jobs' job_id of None \<Rightarrow> True | Some j \<Rightarrow> status j \<noteq> Running"
      by (auto split: option.splits)
    with M show ?thesis
      unfolding s' by (auto simp: mono_upto_def running_progress_snoc split: option.splits)
  qed
qed

lemma parse_progress_mono: "i \<le> j \<Longrightarrow> parse_progress n i \<le> parse_progress n j"
  unfolding parse_progress_def
  by (intro py_round_mono) (simp add: divide_right_mono)

lemma scaled_le: "(t::real) \<le> 1 \<Longrightarrow> c + t * 30 \<le> c + 30"
  by simp

lemma ratio_le_one: "i \<le> n \<Longrightarrow> real i / real n \<le> 1"
  by (cases "n = 0") simp_all

lemma parse_progress_le: "i \<le> n \<Longrightarrow> parse_progress n i \<le> 50"
proof -
  assume "i \<le> n"
  then have "real i / real n \<le> 1" by (rule ratio_le_one)
  from scaled_le [OF this, of 20] have "20 + (real i / real n) * 30 \<le> 50" by simp
  from py_round_mono [OF this, of 1] show ?thesis
    by (simp add: parse_progress_def py_round_numeral)
qed

lemma parse_progress_0: "parse_progress n 0 = 20"
  by (simp add: parse_progress_def py_round_numeral)

lemma chunk_progress_mono: "c \<le> d \<Longrightarrow> chunk_progress nb n c \<le> chunk_progress nb n d"
  unfolding chunk_progress_def
  by (intro py_round_mono) (simp add: divide_right_mono min_le_iff_disj)

lemma chunk_progress_le: "chunk_progress nb n c \<le> 90"
proof -
  have "real (min (min (c + max_concurrent_batches) nb * batch_size) n) / real n \<le> 1"
    by (rule ratio_le_one) simp
  from scaled_le [OF this, of 60]
  have "60 + (real (min (min (c + max_concurrent_batches) nb * batch_size) n) / real n) * 30 \<le> 90"
    by simp
  from py_round_mono [OF this, of 1] show ?thesis
    by (simp add: chunk_progress_def py_round_numeral)
qed

lemma chunk_progress_ge: "60 \<le> chunk_progress nb n c"
proof -
  have "60 \<le> 60 + (real (min (min (c + max_concurrent_batches) nb * batch_size) n) / real n) * 30"
    by simp
  from py_round_mono [OF this, of 1] show ?thesis
    by (simp add: chunk_progress_def py_round_numeral)
qed

lemma mono_weaken_pre:
  "b \<le> b' \<Longrightarrow> triple (mono_upto job_id b') m Q \<Longrightarrow> triple (mono_upto job_id b) m Q"
  by (erule triple_weaken) (simp_all add: mono_upto_weaken)

lemma parse_loop_mono:
  "i + length emails \<le> n \<Longrightarrow>
   triple (mono_upto job_id (parse_progress n i)) (parse_loop env job_id n i emails parsed)
     (mono_upto job_id 50)"
proof (induction emails arbitrary: i parsed)
  case Nil
  then have "parse_progress n i \<le> 50" by (simp add: parse_progress_le)
  then show ?case
    by (simp add: triple_def call_def mono_upto_weaken)
next
  case (Cons e es)
  then have le: "parse_progress n i \<le> 50" and nxt: "(i + 1) + length es \<le> n"
    by (simp_all add: parse_progress_le)
  let ?P = "mono_upto job_id (parse_progress n i)"
  have wr: "triple ?P
      (if i mod 10 = 0
       then upd env job_id Running (Some (20 + (real i / real n) * 30))
              (str ''Parsing emails... '' @ str_nat (i + 1) @ str ''/'' @ str_nat n) None None
       else call (Inr ())) ?P"
    by (simp add: triple_call upd_mono parse_progress_def)
  have rest: "triple ?P (parse_loop env job_id n (i + 1) es ps) (mono_upto job_id 50)" for ps
    by (rule mono_weaken_pre [OF _ Cons.IH [OF nxt]]) (simp add: parse_progress_mono)
  show ?case
    unfolding parse_loop.simps
    by (intro triple_bind [where Q = ?P] triple_call wr rest)
       (simp_all add: mono_upto_weaken [OF le])
qed

lemma collect_results_mono:
  "triple (mono_upto job_id b) (collect_results env job_id rs extracted) (mono_upto job_id b)"
proof (induction rs arbitrary: extracted)
  case Nil
  show ?case by (simp add: triple_call)
next
  case (Cons r rs)
  show ?case
  proof (cases r)
    case (Inl e)
    then show ?thesis
      by (simp only: collect_results.simps sum.case)
         (intro triple_bind_same upd_mono_none Cons.IH)
  next
    case (Inr ins)
    then show ?thesis
      by (simp only: collect_results.simps sum.case Cons.IH)
  qed
qed

lemma chunk_loop_mono:
  "sorted css \<Longrightarrow> \<forall>c \<in> set css. b \<le> chunk_progress (length batches) n c \<Longrightarrow> b \<le> 90 \<Longrightarrow>
   triple (mono_upto job_id b) (chunk_loop env job_id batches n css extracted)
     (mono_upto job_id 90)"
proof (induction css arbitrary: b extracted)
  case Nil
  then show ?case
    by (simp add: triple_def call_def mono_upto_weaken)
next
  case (Cons c cs)
  let ?v = "chunk_progress (length batches) n c"
  from Cons.prems have bv: "b \<le> ?v" by simp
  have v90: "?v \<le> 90" by (rule chunk_progress_le)
  from Cons.prems have later: "\<forall>d \<in> set cs. ?v \<le> chunk_progress (length batches) n d"
    by (auto intro: chunk_progress_mono)
  from Cons.prems have scs: "sorted cs" by simp
  have rest: "triple (mono_upto job_id ?v) (chunk_loop env job_id batches n cs ex)
                (mono_upto job_id 90)" for ex
    by (rule Cons.IH [OF scs later v90])
  have wr: "triple (mono_upto job_id b)
      (upd env job_id Running
         (Some (60 + (real (min (min (c + max_concurrent_batches) (length batches) * batch_size) n)
                      / real n) * 30)) step None None)
      (mono_upto job_id ?v)" for step
    by (rule upd_mono) (use bv in \<open>simp_all add: chunk_progress_def\<close>)
  show ?case
    unfolding chunk_loop.simps Let_def
    apply (rule triple_bind [where Q = "mono_upto job_id b"])
      apply (rule collect_results_mono)
     apply (rule triple_bind [where Q = "mono_upto job_id ?v"])
       apply (rule wr)
      apply (rule rest)
     apply (erule mono_upto_weaken [OF v90])
    apply (erule mono_upto_weaken [OF Cons.prems(3)])
    done
qed

lemma sorted_range_from0: "sorted (range_from0 stop step)"
  by (simp add: range_from0_def sorted_map sorted_wrt_iff_nth_less)

lemma body_mono:
  "triple (mono_upto job_id 10) (process_emails_body env job_id) (mono_upto job_id 90)"
  unfolding process_emails_body_def Let_def
  apply (rule triple_bind [where Q = "mono_upto job_id 10"])
    apply (rule upd_mono; simp add: py_round_numeral)
   apply (rule triple_bind [where Q = "mono_upto job_id 10"])
     apply (rule triple_call)
    apply (rule triple_bind [where Q = "mono_upto job_id 20"])
      apply (rule upd_mono; simp add: py_round_numeral)
     apply (rule triple_bind [where Q = "mono_upto job_id 50"])
       apply (rule mono_weaken_pre [OF _ parse_loop_mono]; simp add: parse_progress_0)
      apply (rule triple_bind [where Q = "mono_upto job_id 50"])
        apply (rule upd_mono; simp add: py_round_numeral)
       apply (rule triple_bind [where Q = "mono_upto job_id 50"])
         apply (rule triple_call)
        apply (rule triple_bind [where Q = "mono_upto job_id 50"])
          apply (rule triple_call)
         apply (rule triple_bind [where Q = "mono_upto job_id 60"])
           apply (rule upd_mono; simp add: py_round_numeral)
          apply (rule triple_bind [where Q = "mono_upto job_id 90"])
            apply (rule chunk_loop_mono; simp add: sorted_range_from0 chunk_progress_ge)
           apply (rule triple_bind [where Q = "mono_upto job_id 90"])
             apply (rule upd_mono; simp add: py_round_numeral)
            apply (rule triple_bind [where Q = "mono_upto job_id 90"])
              apply (rule triple_call)
             apply (rule triple_upd_dep)
             apply (rule upd_mono_other; simp)
            apply (erule mono_upto_weaken [rotated], simp)+
  done

section \<open>Sample runs\<close>

lemma sample_classified:
  "classify_emails_batch ascii_lib [sample_sale, sample_charge, sample_visa] =
     \<lparr>definitely_financial = [sample_charge], maybe_financial = [sample_visa],
      probably_not = [sample_sale]\<rparr>"
  by (simp add: classify_emails_batch_def sample_classes)

lemma py_round_zero: "py_round 0 n = 0"
  using py_round_int [of 0 n] by simp

lemmas run_eval = py_round_zero process_emails_async_def process_emails_body_def bind_def call_def upd_def
  update_job_def sample_services_def sample_jobs_def start_processing_job_def sample_classified
  get_classification_stats_def process_batch_async_def range_from0_def slice_def batch_size_def
  max_concurrent_batches_def py_round_numeral round_none_error_def str_def Let_def

lemma sample_run_trace:
  "map (\<lambda>j. (status j, progress j))
     (job_trace sample_job_id
        (snd (snd (process_emails_async (sample_services False) sample_job_id (sample_jobs, []))))) =
   [(Running, 10), (Running, 20), (Running, 20), (Running, 50), (Running, 60), (Running, 90),
    (Running, 90), (Completed, 100)]"
  by (simp add: run_eval job_trace_def List.map_filter_def)

section \<open>Progress never decreases while the job is running\<close>

text \<open>
  Claim C3.  For every run of the background task (any collaborators, any job id,
  any job store to start from), the progress values written to the job record with
  status \<open>Running\<close>, in the order in which they are written, never decrease.
\<close>

theorem progress_monotone:
  "sorted (map progress (filter (\<lambda>job. status job = Running)
     (job_trace job_id (snd (snd (process_emails_async env job_id (jobs, [])))))))"
proof -
  obtain r1 s1 where b: "process_emails_body env job_id (jobs, []) = (r1, s1)"
    by (cases "process_emails_body env job_id (jobs, [])")
  have "mono_upto job_id 10 (jobs, [])"
    by (simp add: mono_upto_def running_progress_def job_trace_def List.map_filter_def)
  from body_mono this b have m1: "mono_upto job_id 90 s1" by (rule tripleD)
  have "mono_upto job_id 90 (snd (process_emails_async env job_id (jobs, [])))"
  proof (cases r1)
    case (Inl e)
    obtain r2 s2 where u: "upd env job_id Failed (Some 0) (str ''Error: '' @ exn_str e) None
                             (Some (exn_str e)) s1 = (r2, s2)"
      by (cases "upd env job_id Failed (Some 0) (str ''Error: '' @ exn_str e) None (Some (exn_str e)) s1")
    have "triple (mono_upto job_id 90)
            (upd env job_id Failed (Some 0) (str ''Error: '' @ exn_str e) None (Some (exn_str e)))
            (mono_upto job_id 90)"
      by (rule upd_mono_other) simp
    from this m1 u have "mono_upto job_id 90 s2" by (rule tripleD)
    with Inl b u show ?thesis by (simp add: process_emails_async_def)
  next
    case (Inr a)
    with b m1 show ?thesis by (simp add: process_emails_async_def)
  qed
  then show ?thesis
    by (simp add: mono_upto_def running_progress_def)
qed

theorem progress_monotone_witness:
  "map progress (filter (\<lambda>job. status job = Running)
     (job_trace sample_job_id
        (snd (snd (process_emails_async (sample_services False) sample_job_id (sample_jobs, []))))))
     = [10, 20, 20, 50, 60, 90, 90] \<and>
   sorted [10, 20, 20, 50, 60, 90, 90 :: real]"
proof -
  have "map progress (filter (\<lambda>job. status job = Running)
     (job_trace sample_job_id
        (snd (snd (process_emails_async (sample_services False) sample_job_id (sample_jobs, []))))))
     = [10, 20, 20, 50, 60, 90, 90]"
    by (simp add: run_eval job_trace_def List.map_filter_def)
  with progress_monotone [of sample_job_id "sample_services False" sample_jobs]
  show ?thesis by simp
qed

section \<open>A failing batch\<close>

text \<open>
  The warning that reports a failed batch passes \<open>None\<close> as progress, and
  \<open>round(None, 1)\<close> raises: for a job that is in the store, the loop over the
  gathered results of a chunk raises \<open>TypeError\<close> as soon as one of them is an
  exception.
\<close>

lemma collect_results_raises:
  "fst s job_id \<noteq> None \<Longrightarrow> \<exists>e. Inl e \<in> set rs \<Longrightarrow>
   collect_results env job_id rs extracted s = (Inl round_none_error, s)"
proof (induction rs arbitrary: extracted)
  case Nil
  then show ?case by simp
next
  case (Cons r rs)
  show ?case
  proof (cases r)
    case (Inl e)
    with Cons.prems(1) show ?thesis
      by (auto simp: bind_def upd_def update_job_def)
  next
    case (Inr ins)
    with Cons show ?thesis by auto
  qed
qed

text \<open>
  Claim C1 (fails on the code).  The claim is that the failure of one batch is
  recorded as a warning and the job goes on and can complete.  In the sample run the
  only batch fails: the warning update raises, the handler of the task catches the
  \<open>TypeError\<close>, and the job ends with status \<open>Failed\<close>, progress 0, the message of
  the \<open>TypeError\<close> as its error and no results; no update is written after the one
  at 60 percent except the failure.
\<close>

theorem batch_failure_fails_job:
  "(case process_emails_async (sample_services True) sample_job_id (sample_jobs, []) of
      (r, jobs', stores) \<Rightarrow>
        map_option status (jobs' sample_job_id) = Some Failed \<and>
        map_option progress (jobs' sample_job_id) = Some 0 \<and>
        map_option error (jobs' sample_job_id) = Some (Some (exn_str round_none_error)) \<and>
        map_option results (jobs' sample_job_id) = Some None \<and>
        map status (job_trace sample_job_id stores) =
          [Running, Running, Running, Running, Running, Failed])"
  by (simp add: run_eval job_trace_def List.map_filter_def extract_insights_batch_def
        py_range_def sample_extractor_def process_batch_with_ai_def py_len_def get_index_def
        set_item_def extract_financial_insights_def always_number_def)

section \<open>The background task keeps to its key\<close>

lemma frame_restrict:
  "(\<forall>k. k \<noteq> job_id \<longrightarrow> jobs k = jobs0 k) = (jobs |` (- {job_id}) = jobs0 |` (- {job_id}))"
proof
  assume "\<forall>k. k \<noteq> job_id \<longrightarrow> jobs k = jobs0 k"
  then show "jobs |` (- {job_id}) = jobs0 |` (- {job_id})"
    by (auto simp: restrict_map_def fun_eq_iff)
next
  assume e: "jobs |` (- {job_id}) = jobs0 |` (- {job_id})"
  show "\<forall>k. k \<noteq> job_id \<longrightarrow> jobs k = jobs0 k"
  proof (intro allI impI)
    fix k assume "k \<noteq> job_id"
    then have "(jobs |` (- {job_id})) k = jobs k" "(jobs0 |` (- {job_id})) k = jobs0 k"
      by simp_all
    with e show "jobs k = jobs0 k" by simp
  qed
qed

lemma run_frame:
  "frame job_id jobs (snd (process_emails_async env job_id (jobs, [])))"
proof -
  have "frame job_id jobs (jobs, [])" by (simp add: frame_def)
  with async_pres [of "frame job_id jobs" env job_id, OF upd_frame]
  show ?thesis
    by (cases "process_emails_async env job_id (jobs, [])") (auto dest: tripleD)
qed

lemma run_untouched:
  assumes "jobs job_id = None"
  shows "untouched jobs (snd (process_emails_async env job_id (jobs, [])))"
proof -
  have u: "triple (untouched jobs) (upd env job_id st prog step res err) (untouched jobs)"
    for st prog step res err
    using assms by (rule upd_untouched)
  have "untouched jobs (jobs, [])" by (simp add: untouched_def)
  with async_pres [of "untouched jobs" env job_id, OF u]
  show ?thesis
    by (cases "process_emails_async env job_id (jobs, [])") (auto dest: tripleD)
qed

text \<open>
  Claim C10.  For a job id that is not in the store, \<open>_update_job\<close> raises nothing
  and returns the store as it was, even with \<open>None\<close> as progress.  In general
  \<open>_update_job\<close> changes neither the set of keys nor any value outside its job id;
  \<open>start_processing_job\<close> adds its new key and changes nothing else;
  \<open>cleanup_old_jobs\<close> only removes entries; every store that a run of the
  background task goes through has the keys of the store it started from and the
  same values outside the job's key; and a run for an unknown job id leaves the
  store as it was at every step.
\<close>

theorem update_job_unknown_is_noop:
  "(jobs job_id = None \<longrightarrow> update_job now job_id st prog step res err jobs = Inr jobs) \<and>
   (update_job now job_id st prog step res err jobs = Inr jobs' \<longrightarrow>
      dom jobs' = dom jobs \<and> jobs' |` (- {job_id}) = jobs |` (- {job_id})) \<and>
   dom (snd (start_processing_job uuid now jobs)) = insert uuid (dom jobs) \<and>
   snd (start_processing_job uuid now jobs) |` (- {uuid}) = jobs |` (- {uuid}) \<and>
   cleanup_old_jobs now max_age_hours jobs \<subseteq>\<^sub>m jobs \<and>
   (\<forall>s \<in> set (fst (snd (process_emails_async env job_id (jobs, [])))
               # snd (snd (process_emails_async env job_id (jobs, [])))).
      dom s = dom jobs \<and> s |` (- {job_id}) = jobs |` (- {job_id})) \<and>
   (jobs job_id = None \<longrightarrow>
      (\<forall>s \<in> set (fst (snd (process_emails_async env job_id (jobs, [])))
                  # snd (snd (process_emails_async env job_id (jobs, [])))). s = jobs))"
proof -
  have a: "jobs job_id = None \<longrightarrow> update_job now job_id st prog step res err jobs = Inr jobs"
    by (simp add: update_job_absent)
  have b: "update_job now job_id st prog step res err jobs = Inr jobs' \<longrightarrow>
      dom jobs' = dom jobs \<and> jobs' |` (- {job_id}) = jobs |` (- {job_id})"
    using update_job_dom [of now job_id st prog step res err jobs jobs']
          update_job_other [of now job_id st prog step res err jobs jobs']
    by (simp add: frame_restrict [symmetric])
  have c: "dom (snd (start_processing_job uuid now jobs)) = insert uuid (dom jobs)"
    by (simp add: start_processing_job_def)
  have d: "snd (start_processing_job uuid now jobs) |` (- {uuid}) = jobs |` (- {uuid})"
    by (simp add: start_processing_job_def frame_restrict [symmetric])
  have e: "cleanup_old_jobs now max_age_hours jobs \<subseteq>\<^sub>m jobs"
    by (auto simp: map_le_def dom_def dest: cleanup_old_jobs_sub [symmetric])
  have f: "\<forall>s \<in> set (fst (snd (process_emails_async env job_id (jobs, [])))
               # snd (snd (process_emails_async env job_id (jobs, [])))).
      dom s = dom jobs \<and> s |` (- {job_id}) = jobs |` (- {job_id})"
    using run_frame [of job_id jobs env]
    by (simp add: frame_def frame_restrict)
  have g: "jobs job_id = None \<longrightarrow>
      (\<forall>s \<in> set (fst (snd (process_emails_async env job_id (jobs, [])))
                  # snd (snd (process_emails_async env job_id (jobs, [])))). s = jobs)"
    using run_untouched [of jobs job_id env]
    by (simp add: untouched_def)
  from a b c d e f g show ?thesis by blast
qed

theorem update_job_unknown_is_noop_witness:
  "sample_jobs (str ''job-2'') = None \<and>
   update_job 7 (str ''job-2'') Running None (str ''x'') None None sample_jobs = Inr sample_jobs \<and>
   update_job 7 sample_job_id Running (Some 10) (str ''x'') None None sample_jobs
     = Inr (sample_jobs(sample_job_id \<mapsto>
              \<lparr> status = Running, progress = 10, total = 0, current_step = str ''x'',
                start_time = 0, updated_at = Some 7, results = None, error = None \<rparr>)) \<and>
   fst (snd (process_emails_async (sample_services False) (str ''job-2'') (sample_jobs, [])))
     = sample_jobs"
proof -
  have n: "sample_jobs (str ''job-2'') = None"
    by (simp add: sample_jobs_def start_processing_job_def sample_job_id_def str_def)
  have u: "update_job 7 sample_job_id Running (Some 10) (str ''x'') None None sample_jobs
     = Inr (sample_jobs(sample_job_id \<mapsto>
              \<lparr> status = Running, progress = 10, total = 0, current_step = str ''x'',
                start_time = 0, updated_at = Some 7, results = None, error = None \<rparr>))"
    by (simp add: update_job_def sample_jobs_def start_processing_job_def py_round_numeral)
  from n u
    update_job_unknown_is_noop [where jobs = sample_jobs and job_id = "str ''job-2''"
      and now = 7 and st = Running and prog = None and step = "str ''x''" and res = None
      and err = None and env = "sample_services False"]
  show ?thesis by simp
qed

section \<open>The progress stream\<close>

lemma changed_snapshots_Nil: "changed_snapshots l [] = []"
  by (simp add: changed_snapshots_def)

lemma changed_snapshots_Cons:
  "changed_snapshots l (j # js) =
     (if progress j \<noteq> l then [snapshot_of j] else []) @ changed_snapshots (progress j) js"
  by (simp add: changed_snapshots_def)

lemma changed_snapshots_snoc:
  "changed_snapshots l (js @ [j]) =
     changed_snapshots l js @
       (if progress j \<noteq> last (l # map progress js) then [snapshot_of j] else [])"
proof (induction js arbitrary: l)
  case Nil
  show ?case by (simp add: changed_snapshots_Cons changed_snapshots_Nil)
next
  case (Cons a js)
  show ?case by (simp add: changed_snapshots_Cons Cons.IH)
qed

lemma job_trace_Cons:
  "job_trace job_id (jobs # stores) =
     (case jobs job_id of None \<Rightarrow> [] | Some j \<Rightarrow> [j]) @ job_trace job_id stores"
  by (simp add: job_trace_def List.map_filter_def split: option.splits)

lemma stream_loop_running:
  "list_all (quiet job_id) pre \<Longrightarrow> list_all (still_running job_id) (map fst pre) \<Longrightarrow>
   stream_loop job_id l (pre @ polls) =
     (changed_snapshots l (job_trace job_id (map fst pre))
        @ fst (stream_loop job_id (last (l # map progress (job_trace job_id (map fst pre)))) polls),
      snd (stream_loop job_id (last (l # map progress (job_trace job_id (map fst pre)))) polls))"
proof (induction pre arbitrary: l)
  case Nil
  show ?case by (simp add: job_trace_def List.map_filter_def changed_snapshots_Nil)
next
  case (Cons poll pre)
  obtain jobs resumed where p: "poll = (jobs, resumed)" by (cases poll)
  from Cons.prems p have sr: "still_running job_id jobs"
    and rest: "list_all (still_running job_id) (map fst pre)"
    and q: "quiet job_id (jobs, resumed)" and qs: "list_all (quiet job_id) pre"
    by simp_all
  from sr obtain job where j: "jobs job_id = Some job"
    and st: "status job = Starting \<or> status job = Running"
    by (auto simp: still_running_def split: option.splits)
  from q j have r: "resumed = job" by (simp add: quiet_def)
  from st have nf: "status job \<noteq> Completed" "status job \<noteq> Failed" by auto
  show ?case
    using j nf Cons.IH [OF qs rest]
    by (simp add: p r get_job_status_def job_trace_Cons changed_snapshots_Cons Let_def
          snapshot_of_def split: prod.splits)
qed

lemma snapshots_remdups_adj:
  "map item_progress (changed_snapshots l js) = map Some (tl (remdups_adj (l # map progress js)))"
proof (induction js arbitrary: l)
  case Nil
  show ?case by (simp add: changed_snapshots_Nil)
next
  case (Cons j js)
  have hd: "remdups_adj (progress j # map progress js)
              = progress j # tl (remdups_adj (progress j # map progress js))"
  proof -
    have "remdups_adj (progress j # map progress js) \<noteq> []" by simp
    moreover have "hd (remdups_adj (progress j # map progress js)) = progress j"
      by (simp only: hd_remdups_adj list.sel)
    ultimately show ?thesis by (metis list.collapse)
  qed
  show ?case
  proof (cases "progress j = l")
    case True
    then show ?thesis
      using Cons.IH [of l] by (simp add: changed_snapshots_Cons)
  next
    case False
    from hd obtain rs where rs: "remdups_adj (progress j # map progress js) = progress j # rs"
      by blast
    from False show ?thesis
      using Cons.IH [of "progress j"]
      by (simp add: changed_snapshots_Cons snapshot_of_def rs)
  qed
qed

text \<open>
  In every store that a run of the background task goes through, a job with status
  \<open>Completed\<close> has results, provided this held in the store the run started from
  (it does for a job that \<open>start_processing_job\<close> has just created).
\<close>

lemma upd_results_ok:
  "(st = Completed \<longrightarrow> res \<noteq> None) \<Longrightarrow>
   triple (results_ok job_id) (upd env job_id st prog step res err) (results_ok job_id)"
proof (rule tripleI)
  fix s r s'
  assume ok: "st = Completed \<longrightarrow> res \<noteq> None"
    and R: "results_ok job_id s"
    and run: "upd env job_id st prog step res err s = (r, s')"
  show "results_ok job_id s'"
  proof (cases "update_job (svc_now env (length (snd s))) job_id st prog step res err (fst s)")
    case (Inl e)
    with run have "s' = s" by (simp add: upd_def)
    with R show ?thesis by simp
  next
    case (Inr jobs')
    with run have s': "s' = (jobs', snd s @ [jobs'])" by (simp add: upd_def)
    from Inr ok have "case jobs' job_id of None \<Rightarrow> True
                      | Some job \<Rightarrow> status job = Completed \<longrightarrow> results job \<noteq> None"
      by (auto simp: update_job_def Let_def split: option.splits if_splits)
    with R show ?thesis unfolding s' results_ok_def by auto
  qed
qed

lemma run_results_ok:
  assumes "case jobs job_id of None \<Rightarrow> True
           | Some job \<Rightarrow> status job = Completed \<longrightarrow> results job \<noteq> None"
  shows "results_ok job_id (snd (process_emails_async env job_id (jobs, [])))"
proof -
  from assms have "results_ok job_id (jobs, [])" by (simp add: results_ok_def)
  with async_pres [of "results_ok job_id" env job_id, OF upd_results_ok]
  show ?thesis
    by (cases "process_emails_async env job_id (jobs, [])") (auto dest: tripleD)
qed

text \<open>
  When the background task writes nothing while the generator is suspended at a
  \<open>yield\<close>, the stream keeps its contract.  Let the first polls (\<open>pre\<close>) see the job
  in a status that is not final.  Up to there the stream has yielded one snapshot
  for every poll whose progress differs from the progress of the poll before it
  (from \<open>-1\<close> before the first), which is the last value it has emitted, and it is
  still waiting.  When the next poll does not find the job, it yields the single
  item "job not found" and ends; for an unknown job id that is all it yields.  When
  the next poll sees status \<open>Completed\<close> (with the results that a completed job has)
  or \<open>Failed\<close>, it yields the snapshot if the progress has changed, then the results
  or the error, and ends, whatever later polls would see.  The progress values of
  the snapshots are those of the polls with adjacent repetitions removed.
\<close>

lemma quiet_stream:
  assumes pre: "list_all (quiet job_id) pre" "list_all (still_running job_id) (map fst pre)"
  shows "get_job_stream job_id pre
           = (changed_snapshots (- 1) (job_trace job_id (map fst pre)), False)"
    and "jobs job_id = None \<Longrightarrow>
         get_job_stream job_id (pre @ (jobs, resumed) # later)
           = (changed_snapshots (- 1) (job_trace job_id (map fst pre)) @ [JobNotFound], True)"
    and "jobs job_id = Some job \<Longrightarrow> status job = Completed \<Longrightarrow> results job = Some r \<Longrightarrow>
         get_job_stream job_id (pre @ (jobs, job) # later)
           = (changed_snapshots (- 1) (job_trace job_id (map fst pre @ [jobs]))
                @ [ResultsItem r], True)"
    and "jobs job_id = Some job \<Longrightarrow> status job = Failed \<Longrightarrow>
         get_job_stream job_id (pre @ (jobs, job) # later)
           = (changed_snapshots (- 1) (job_trace job_id (map fst pre @ [jobs]))
                @ [ErrorItem (error job)], True)"
    and "map item_progress (changed_snapshots (- 1) (job_trace job_id stores))
           = map Some (tl (remdups_adj (- 1 # map progress (job_trace job_id stores))))"
proof -
  show "get_job_stream job_id pre
          = (changed_snapshots (- 1) (job_trace job_id (map fst pre)), False)"
    using stream_loop_running [OF pre, of "- 1" "[]"]
    by (simp add: get_job_stream_def)
  show "get_job_stream job_id (pre @ (jobs, resumed) # later)
          = (changed_snapshots (- 1) (job_trace job_id (map fst pre)) @ [JobNotFound], True)"
    if "jobs job_id = None"
    using stream_loop_running [OF pre, of "- 1" "(jobs, resumed) # later"] that
    by (simp add: get_job_stream_def get_job_status_def)
  show "get_job_stream job_id (pre @ (jobs, job) # later)
          = (changed_snapshots (- 1) (job_trace job_id (map fst pre @ [jobs]))
               @ [ResultsItem r], True)"
    if "jobs job_id = Some job" "status job = Completed" "results job = Some r"
    using stream_loop_running [OF pre, of "- 1" "(jobs, job) # later"] that
    by (simp add: get_job_stream_def get_job_status_def job_trace_snoc changed_snapshots_snoc
          snapshot_of_def Let_def)
  show "get_job_stream job_id (pre @ (jobs, job) # later)
          = (changed_snapshots (- 1) (job_trace job_id (map fst pre @ [jobs]))
               @ [ErrorItem (error job)], True)"
    if "jobs job_id = Some job" "status job = Failed"
    using stream_loop_running [OF pre, of "- 1" "(jobs, job) # later"] that
    by (simp add: get_job_stream_def get_job_status_def job_trace_snoc changed_snapshots_snoc
          snapshot_of_def Let_def)
  show "map item_progress (changed_snapshots (- 1) (job_trace job_id stores))
          = map Some (tl (remdups_adj (- 1 # map progress (job_trace job_id stores))))"
    by (rule snapshots_remdups_adj)
qed

lemma quiet_stream_samples:
  "get_job_stream sample_job_id
     [(poll_store Starting 0 None None, poll_job Starting 0 None None),
      (poll_store Running 10 None None, poll_job Running 10 None None),
      (poll_store Running 10 None None, poll_job Running 10 None None),
      (poll_store Running 20 None None, poll_job Running 20 None None),
      (poll_store Completed 100 (Some sample_results) None,
       poll_job Completed 100 (Some sample_results) None),
      (poll_store Completed 100 None None, poll_job Completed 100 None None)]
   = ([Snapshot Starting 0 (str ''step'') (Some 1), Snapshot Running 10 (str ''step'') (Some 1),
       Snapshot Running 20 (str ''step'') (Some 1), Snapshot Completed 100 (str ''step'') (Some 1),
       ResultsItem sample_results], True) \<and>
   get_job_stream sample_job_id
     [(poll_store Running 10 None None, poll_job Running 10 None None),
      (poll_store Failed 0 None (Some (str ''boom'')), poll_job Failed 0 None (Some (str ''boom''))),
      (poll_store Running 10 None None, poll_job Running 10 None None)]
   = ([Snapshot Running 10 (str ''step'') (Some 1), Snapshot Failed 0 (str ''step'') (Some 1),
       ErrorItem (Some (str ''boom''))], True) \<and>
   get_job_stream (str ''job-2'') [(poll_store Running 10 None None, poll_job Running 10 None None)]
   = ([JobNotFound], True)"
  by (simp add: get_job_stream_def get_job_status_def poll_store_def poll_job_def
        sample_job_id_def str_def)

text \<open>
  The sample run of the scheduler writes eight stores; the fifth has the job at 60
  percent, the last has it completed.  A generator that polls the fifth and resumes
  from its \<open>yield\<close> when the task has written the last yields the snapshot at 60
  percent and one more item, which is no snapshot, and ends.
\<close>

lemma stream_of_sample_run:
  "map item_progress
     (fst (get_job_stream sample_job_id
             [(sample_log ! 4, the ((sample_log ! 7) sample_job_id))])) = [Some 60, None] \<and>
   snd (get_job_stream sample_job_id
          [(sample_log ! 4, the ((sample_log ! 7) sample_job_id))])"
  by (simp add: sample_log_def run_eval get_job_stream_def get_job_status_def)

text \<open>
  Claim C8 (fails on the code).  The claim is that a snapshot is emitted exactly
  when the progress of the job differs from the last emitted value.  The generator
  means to keep the emitted value in \<open>last_progress\<close>, but it assigns it after the
  \<open>yield\<close>, from the dictionary that the background task changes in place.  In the
  first run the job is at 60 percent when it is polled; the task writes 75 percent
  while the generator is suspended at the \<open>yield\<close> of the snapshot, so that
  \<open>last_progress\<close> becomes 75, and the two polls that follow see a progress of 75,
  which differs from the last emitted value 60, and emit nothing.  In the second run
  the task completes the job during the \<open>yield\<close>: the stream ends with the results,
  and the snapshot of the job at 100 percent is never emitted.  In the third run the
  write of 75 percent lands between two polls instead, and its snapshot is emitted.
\<close>

theorem stream_misses_progress:
  "get_job_stream sample_job_id
     [(poll_store Running 60 None None, poll_job Running 75 None None),
      (poll_store Running 75 None None, poll_job Running 75 None None),
      (poll_store Running 75 None None, poll_job Running 75 None None)]
   = ([Snapshot Running 60 (str ''step'') (Some 1)], False) \<and>
   get_job_stream sample_job_id
     [(poll_store Running 60 None None, poll_job Completed 100 (Some sample_results) None)]
   = ([Snapshot Running 60 (str ''step'') (Some 1), ResultsItem sample_results], True) \<and>
   get_job_stream sample_job_id
     [(poll_store Running 60 None None, poll_job Running 60 None None),
      (poll_store Running 75 None None, poll_job Running 75 None None)]
   = ([Snapshot Running 60 (str ''step'') (Some 1), Snapshot Running 75 (str ''step'') (Some 1)],
      False)"
  by (simp add: get_job_stream_def get_job_status_def poll_store_def poll_job_def
        sample_job_id_def str_def)

section \<open>Amounts of the fallback extractor\<close>

lemma extract_amount_loop_range:
  "extract_amount_loop L ps text = Some a \<Longrightarrow> 1 \<le> a \<and> a \<le> 1000000"
  by (induction ps) (auto split: list.splits option.splits if_splits)

lemma extract_amount_loop_none:
  "list_all (\<lambda>pattern.
        list_all (\<lambda>m. case py_float L (remove_char 44 m) of
                         None \<Rightarrow> True
                       | Some a \<Rightarrow> \<not> in_range a)
                 (re_findall L pattern True text)) ps
   \<Longrightarrow> extract_amount_loop L ps text = None"
  by (induction ps) (auto simp: in_range_def split: list.splits option.splits)

lemma fallback_no_amount:
  "extract_amount (ex_lib X) (str_lower (ex_lib X) (subj @ str '' '' @ content)) = None
   \<Longrightarrow> dict_lookup (fallback_extraction X content sender subj) (str ''transaction'') = Some JNull"
  by (simp add: fallback_extraction_def Let_def dict_lookup_def empty_result_def str_def
           split: option.splits)

text \<open>
  Claim C9.  Whatever the library computes: an amount that \<open>_extract_amount\<close> returns
  lies between 1 and 1000000; and when every amount that the patterns find in the text
  of an email (subject, a blank, the content, lower-cased) is outside this range or
  not a number, \<open>_extract_amount\<close> returns \<open>None\<close> and the result of the fallback
  extraction has \<open>transaction\<close> = \<open>None\<close>, whether or not a merchant is found.
\<close>

theorem amount_in_range:
  "(extract_amount L text = Some a \<longrightarrow> 1 \<le> a \<and> a \<le> 1000000) \<and>
   (amounts_outside (ex_lib X) (str_lower (ex_lib X) (subj @ str '' '' @ content)) \<longrightarrow>
      extract_amount (ex_lib X) (str_lower (ex_lib X) (subj @ str '' '' @ content)) = None \<and>
      dict_lookup (fallback_extraction X content sender subj) (str ''transaction'') = Some JNull)"
proof -
  have a: "extract_amount L text = Some a \<longrightarrow> 1 \<le> a \<and> a \<le> 1000000"
    by (auto simp: extract_amount_def dest: extract_amount_loop_range)
  have b: "extract_amount (ex_lib X) (str_lower (ex_lib X) (subj @ str '' '' @ content)) = None"
    if "amounts_outside (ex_lib X) (str_lower (ex_lib X) (subj @ str '' '' @ content))"
    using that unfolding amounts_outside_def extract_amount_def
    by (rule extract_amount_loop_none)
  from a b fallback_no_amount [of X subj content sender] show ?thesis by blast
qed

lemmas amount_eval = extract_amount_def amount_patterns_def currency_mark_def amount_number_def
  rx_findall_def found_item_def ascii_lib_def str_def ascii_lower_def lower_char_def
  is_upper_def same_char_def is_word_def is_digit_def is_space_def then_match_def in_class_def
  decimal_float_def remove_char_def Let_def repeat_match_numeral

lemma f1: "re_findall ascii_lib (seqs [currency_mark, Star Space, amount_number]) True (str ''swiggy payment rs 5000000'')
            = [str ''5000000'']"
  by (simp add: amount_eval)

lemma f2: "re_findall ascii_lib (seqs [amount_number, Star Space, currency_mark]) True (str ''swiggy payment rs 5000000'') = []"
  by (simp add: amount_eval)

lemma f3: "re_findall ascii_lib
             (seqs [alts (map Lit [''amount'', ''total'', ''paid'', ''charged'']), LazyStar AnyChar,
                    currency_mark, Star Space, amount_number]) True (str ''swiggy payment rs 5000000'') = []"
  by (simp add: amount_eval)

lemma a1: "extract_amount ascii_lib (str ''paid rs 499'') = Some 499"
  by (simp add: amount_eval)

text \<open>
  The sample has the merchant Swiggy and the single amount 5000000; the text
  \<open>paid rs 499\<close> has the amount 499.
\<close>

theorem amount_in_range_witness:
  "extract_amount ascii_lib (str ''paid rs 499'') = Some 499 \<and>
   amounts_outside (ex_lib sample_extractor)
     (str_lower (ex_lib sample_extractor) (subject sample_big @ str '' '' @ bodyText sample_big)) \<and>
   extract_clean_merchant ascii_lib (from' sample_big) (subject sample_big) = Some (str ''Swiggy'') \<and>
   extract_amount (ex_lib sample_extractor)
     (str_lower (ex_lib sample_extractor) (subject sample_big @ str '' '' @ bodyText sample_big))
     = None \<and>
   dict_lookup (fallback_extraction sample_extractor (bodyText sample_big) (from' sample_big)
                  (subject sample_big)) (str ''transaction'') = Some JNull"
proof -
  have t: "str_lower ascii_lib (subject sample_big @ str '' '' @ bodyText sample_big)
             = str ''swiggy payment rs 5000000''"
    by (simp add: sample_big_def ascii_lib_def ascii_lower_def lower_char_def
          is_upper_def str_def)
  have l: "ex_lib sample_extractor = ascii_lib" by (simp add: sample_extractor_def)
  have big: "py_float ascii_lib (remove_char 44 (str ''5000000'')) = Some 5000000"
    by (simp add: amount_eval)
  have out: "amounts_outside (ex_lib sample_extractor)
     (str_lower (ex_lib sample_extractor) (subject sample_big @ str '' '' @ bodyText sample_big))"
    unfolding l t amounts_outside_def amount_patterns_def
    by (simp only: list.pred_inject f1 f2 f3 big option.case in_range_def) simp
  have m: "extract_clean_merchant ascii_lib (from' sample_big) (subject sample_big)
             = Some (str ''Swiggy'')"
    by (simp add: extract_clean_merchant_def merchant_patterns_def sample_big_def ascii_lib_def
          ascii_lower_def lower_char_def is_upper_def str_def)
  from a1 out m
    amount_in_range [of ascii_lib "str ''paid rs 499''" 499 sample_extractor "subject sample_big"
       "bodyText sample_big" "from' sample_big"]
  show ?thesis by simp
qed

section \<open>One record per email\<close>

lemma set_item_Inr:
  "set_item d k v = Inr r \<Longrightarrow> is_dict r \<and> dict_lookup r k = Some v"
  by (auto simp: set_item_def is_dict_def dict_lookup_def update_conv' split: json.splits)

lemma set_item_dict:
  "is_dict d \<Longrightarrow> \<exists>r. set_item d k v = Inr r"
  by (auto simp: set_item_def is_dict_def split: json.splits)

lemma fallback_is_dict: "is_dict (fallback_extraction X content sender subj)"
  by (simp add: fallback_extraction_def Let_def is_dict_def split: option.splits)

lemma insights_is_dict:
  "single_replies_ok X \<Longrightarrow>
   is_dict (fst (extract_financial_insights X content sender subj k))"
proof (cases "ex_model X")
  case None
  then show ?thesis by (simp add: extract_financial_insights_def fallback_is_dict)
next
  case (Some reply)
  assume "single_replies_ok X"
  with Some have "case reply (SinglePrompt sender subj content) k of
                    Inl e \<Rightarrow> True | Inr parsed \<Rightarrow> is_dict parsed"
    by (simp add: single_replies_ok_def)
  with Some show ?thesis
    by (auto simp: extract_financial_insights_def fallback_is_dict split: sum.splits)
qed

lemma extract_each_ok:
  "single_replies_ok X \<Longrightarrow>
   \<exists>rs k'. extract_each X emails k = (Inr rs, k') \<and> list_all2 tagged_for emails rs"
proof (induction emails arbitrary: k)
  case Nil
  show ?case by simp
next
  case (Cons e es)
  obtain result k1 where r: "extract_financial_insights X (bodyText e) (from' e) (subject e) k
                              = (result, k1)"
    by (cases "extract_financial_insights X (bodyText e) (from' e) (subject e) k")
  from insights_is_dict [OF Cons.prems, of "bodyText e" "from' e" "subject e" k] r
  have "is_dict result" by simp
  then obtain tagged where t: "set_item result (str ''email_id'') (JStr (id' e)) = Inr tagged"
    using set_item_dict by blast
  from set_item_Inr [OF t] have tg: "tagged_for e tagged" by (simp add: tagged_for_def)
  from Cons.IH [OF Cons.prems, of k1] obtain rs k' where
    rest: "extract_each X es k1 = (Inr rs, k')" "list_all2 tagged_for es rs" by blast
  from r t rest tg show ?case by simp
qed

lemma map_batch_results_ok:
  "map_batch_results X br i emails = Inr rs \<Longrightarrow> list_all2 tagged_for emails rs"
proof (induction emails arbitrary: i rs)
  case Nil
  then show ?case by simp
next
  case (Cons e es)
  from Cons.prems obtain tagged rest where
    t: "(\<exists>d. set_item d (str ''email_id'') (JStr (id' e)) = Inr tagged)"
    and r: "map_batch_results X br (i + 1) es = Inr rest" and rs: "rs = tagged # rest"
    by (auto split: sum.splits if_splits)
  from t have "tagged_for e tagged"
    by (auto simp: tagged_for_def dest: set_item_Inr)
  with Cons.IH [OF r] rs show ?case by simp
qed

lemma process_batch_ok:
  assumes "single_replies_ok X" and "ex_model X \<noteq> None"
  shows "\<exists>rs k'. process_batch_with_ai X emails k = (Inr rs, k') \<and> list_all2 tagged_for emails rs"
proof -
  from assms(2) obtain reply where m: "ex_model X = Some reply" by auto
  show ?thesis
  proof (cases "emails = []")
    case True
    with m show ?thesis by (simp add: process_batch_with_ai_def)
  next
    case False
    show ?thesis
    proof (cases "case reply (batch_prompt emails) k of
                     Inl e \<Rightarrow> Inl e
                   | Inr batch_results \<Rightarrow> map_batch_results X batch_results 0 emails")
      case (Inl e)
      with m False have "process_batch_with_ai X emails k = extract_each X emails (k + 1)"
        by (simp add: process_batch_with_ai_def)
      with extract_each_ok [OF assms(1), of emails "k + 1"] show ?thesis by simp
    next
      case (Inr rs)
      then have "list_all2 tagged_for emails rs"
        by (auto split: sum.splits dest: map_batch_results_ok)
      with Inr m False show ?thesis by (simp add: process_batch_with_ai_def)
    qed
  qed
qed

lemma batches_loop_ok:
  "single_replies_ok X \<Longrightarrow>
   \<exists>rs k'. batches_loop X emails bsize starts acc k = (Inr (acc @ rs), k') \<and>
           list_all2 tagged_for (concat (map (\<lambda>i. slice emails i bsize) starts)) rs"
proof (induction starts arbitrary: acc k)
  case Nil
  show ?case by simp
next
  case (Cons i starts)
  let ?batch = "slice emails i bsize"
  have "\<exists>rs k1. (if ex_model X \<noteq> None
               then (case process_batch_with_ai X ?batch k of
                       (Inr batch_results, calls1) \<Rightarrow> (Inr batch_results, calls1)
                     | (Inl e, calls1) \<Rightarrow> extract_each X ?batch calls1)
               else extract_each X ?batch k) = (Inr rs, k1) \<and> list_all2 tagged_for ?batch rs"
  proof (cases "ex_model X = None")
    case True
    with extract_each_ok [OF Cons.prems, of ?batch k] show ?thesis by simp
  next
    case False
    with process_batch_ok [OF Cons.prems False, of ?batch k] show ?thesis by auto
  qed
  then obtain rs1 k1 where
    s1: "(if ex_model X \<noteq> None
               then (case process_batch_with_ai X ?batch k of
                       (Inr batch_results, calls1) \<Rightarrow> (Inr batch_results, calls1)
                     | (Inl e, calls1) \<Rightarrow> extract_each X ?batch calls1)
               else extract_each X ?batch k) = (Inr rs1, k1)"
    and t1: "list_all2 tagged_for ?batch rs1" by blast
  from Cons.IH [OF Cons.prems, of "acc @ rs1" k1] obtain rs2 k2 where
    s2: "batches_loop X emails bsize starts (acc @ rs1) k1 = (Inr ((acc @ rs1) @ rs2), k2)"
    and t2: "list_all2 tagged_for (concat (map (\<lambda>i. slice emails i bsize) starts)) rs2" by blast
  have "batches_loop X emails bsize (i # starts) acc k = (Inr (acc @ (rs1 @ rs2)), k2)"
    using s1 s2 by (simp add: Let_def)
  moreover from t1 t2 have
    "list_all2 tagged_for (concat (map (\<lambda>i. slice emails i bsize) (i # starts))) (rs1 @ rs2)"
    by (simp add: list_all2_appendI)
  ultimately show ?case by blast
qed

lemma concat_slices_take:
  "concat (map (\<lambda>i. slice xs i b) (map (\<lambda>k. k * b) [0..<m])) = take (m * b) xs"
proof (induction m)
  case 0
  show ?case by simp
next
  case (Suc m)
  have "take (m * b) xs @ take b (drop (m * b) xs) = take (m * b + b) xs"
    by (simp add: take_add)
  with Suc show ?case by (simp add: slice_def add.commute)
qed

lemma concat_slices:
  assumes "0 < b"
  shows "concat (map (\<lambda>i. slice xs i b) (range_from0 (length xs) b)) = xs"
proof -
  have "length xs \<le> ((length xs + b - 1) div b) * b"
  proof -
    have "(length xs + b - 1) mod b < b" using assms by simp
    moreover have "(length xs + b - 1) = ((length xs + b - 1) div b) * b + (length xs + b - 1) mod b"
      by simp
    ultimately show ?thesis using assms by linarith
  qed
  then show ?thesis
    by (simp only: range_from0_def concat_slices_take) simp
qed

lemma batch_records:
  assumes "single_replies_ok X" and "1 \<le> bsize"
  shows "\<exists>rs k'. extract_insights_batch X emails bsize k = (Inr rs, k') \<and> list_all2 tagged_for emails rs"
proof (cases "emails = []")
  case True
  then show ?thesis by (simp add: extract_insights_batch_def)
next
  case False
  from assms(2) have r: "py_range (length emails) bsize = Inr (range_from0 (length emails) (nat bsize))"
    by (simp add: py_range_def)
  from assms(2) have pos: "0 < nat bsize" by simp
  from batches_loop_ok [OF assms(1), of emails "nat bsize" "range_from0 (length emails) (nat bsize)" "[]" k]
  obtain rs k' where
    "batches_loop X emails (nat bsize) (range_from0 (length emails) (nat bsize)) [] k = (Inr rs, k')"
    "list_all2 tagged_for emails rs"
    by (auto simp: concat_slices [OF pos])
  with False r show ?thesis
    by (simp add: extract_insights_batch_def)
qed

lemma tagged_tags:
  "list_all2 tagged_for emails rs \<Longrightarrow>
   map (\<lambda>record. dict_lookup record (str ''email_id'')) rs
     = map (\<lambda>email. Some (JStr (id' email))) emails \<and> list_all is_dict rs"
  by (induction emails rs rule: list_all2_induct) (simp_all add: tagged_for_def)

text \<open>
  For every list of emails and every batch size of at least 1, when the extractor
  has no model, or each reply of the model to a prompt for a single email fails or
  parses to a dictionary (whatever it replies to the prompts for batches),
  \<open>extract_insights_batch\<close> returns normally, and the \<open>email_id\<close> values of the
  records it returns are the ids of the emails, one record for each email, in input
  order.
\<close>

lemma records_of_dict_replies:
  "single_replies_ok X \<Longrightarrow> 1 \<le> bsize \<Longrightarrow>
   tags_of (fst (extract_insights_batch X emails bsize k))
     = Some (map (\<lambda>email. Some (JStr (id' email))) emails)"
proof -
  assume ok: "single_replies_ok X" and b: "1 \<le> bsize"
  from batch_records [OF ok b, of emails k] obtain rs k' where
    e: "extract_insights_batch X emails bsize k = (Inr rs, k')"
    and t: "list_all2 tagged_for emails rs" by blast
  from tagged_tags [OF t] e show ?thesis by (simp add: tags_of_def)
qed

text \<open>
  Without a model, and with a model that answers a batch of two with an array of one
  record, so that the second email of each batch goes to the fallback.
\<close>

lemma records_of_dict_replies_samples:
  "tags_of (fst (extract_insights_batch sample_extractor
                   [sample_charge, sample_visa, sample_sale] 2 0))
     = Some [Some (JStr (str ''m2'')), Some (JStr (str ''m3'')), Some (JStr (str ''m1''))] \<and>
   tags_of (fst (extract_insights_batch (sample_extractor\<lparr> ex_model := Some one_of_two \<rparr>)
                   [sample_charge, sample_visa, sample_sale] 2 0))
     = Some [Some (JStr (str ''m2'')), Some (JStr (str ''m3'')), Some (JStr (str ''m1''))]"
proof -
  have ok: "single_replies_ok sample_extractor"
    by (simp add: single_replies_ok_def sample_extractor_def)
  have ok2: "single_replies_ok (sample_extractor\<lparr> ex_model := Some one_of_two \<rparr>)"
    by (simp add: single_replies_ok_def one_of_two_def is_dict_def)
  have b: "(1::int) \<le> 2" by simp
  have ids: "map (\<lambda>email. Some (JStr (id' email))) [sample_charge, sample_visa, sample_sale]
               = [Some (JStr (str ''m2'')), Some (JStr (str ''m3'')), Some (JStr (str ''m1''))]"
    by (simp add: sample_charge_def sample_visa_def sample_sale_def)
  from records_of_dict_replies [OF ok b, of "[sample_charge, sample_visa, sample_sale]" 0]
       records_of_dict_replies [OF ok2 b, of "[sample_charge, sample_visa, sample_sale]" 0]
  show ?thesis by (simp only: ids)
qed

text \<open>
  Claim C4 (fails on the code).  The claim is that every email gets its record
  whether or not the model is available or its batch call fails.  The extractor
  guards the call of the model three times over, but \<open>extract_financial_insights\<close>
  returns whatever \<open>json.loads\<close> gives, and the last fallback of
  \<open>extract_insights_batch\<close> tags that value outside any handler.  With a model
  that replies to every prompt with the JSON text \<open>[1]\<close>, the batch reply yields the
  integer 1 for the first email, whose tagging raises; the handler of
  \<open>_process_batch_with_ai\<close> turns to the emails one by one, gets the list \<open>[1]\<close>
  for the first of them and raises again while it tags it; \<open>extract_insights_batch\<close>
  catches that and does the same, and this third \<open>TypeError\<close> leaves the function:
  for one email and the default batch size no record is returned.  Three calls of
  the model have been made.
\<close>

theorem non_dict_reply_raises:
  "extract_insights_batch (sample_extractor\<lparr> ex_model := Some always_number \<rparr>)
     [sample_charge] 5 0
     = (Inl (Exn ''TypeError'' (str ''list indices must be integers or slices, not str'')), 3)"
  by (simp add: extract_insights_batch_def py_range_def sample_extractor_def range_from0_def
        slice_def process_batch_with_ai_def py_len_def get_index_def set_item_def
        extract_financial_insights_def always_number_def Let_def)

section \<open>The reference arithmetic\<close>

lemma bit_length_0: "bit_length 0 = 0"
  by (simp add: bit_length.simps)

lemma bit_length_1: "bit_length (Suc 0) = 1"
  by (simp add: bit_length.simps)

lemma bit_length_numeral: "bit_length (numeral k) = Suc (bit_length (numeral k div 2))"
  by (subst bit_length.simps) simp

text \<open>\<open>exponent x\<close> is the exponent of the binade of \<open>x\<close>.\<close>

lemma bit_length_bounds: "0 < n \<Longrightarrow> 2 ^ (bit_length n - 1) \<le> n \<and> n < 2 ^ bit_length n"
proof (induction n rule: bit_length.induct)
  case (1 n)
  show ?case
  proof (cases "n div 2 = 0")
    case True
    with 1 have "n = 1" by presburger
    then show ?thesis by (simp add: bit_length_1 bit_length_0)
  next
    case False
    with 1 have ih: "2 ^ (bit_length (n div 2) - 1) \<le> n div 2" "n div 2 < 2 ^ bit_length (n div 2)"
      by simp_all
    from False have pos: "0 < bit_length (n div 2)"
      by (subst bit_length.simps) simp
    from 1 have bl: "bit_length n = Suc (bit_length (n div 2))"
      by (subst bit_length.simps) simp
    from pos obtain k where k: "bit_length (n div 2) = Suc k" by (cases "bit_length (n div 2)") auto
    from ih k have "2 ^ k \<le> n div 2" "n div 2 < 2 * 2 ^ k" by simp_all
    then have "2 * 2 ^ k \<le> n" "n < 2 * (2 * 2 ^ k)" by presburger+
    then show ?thesis by (simp add: bl k)
  qed
qed

lemma exponent_bounds:
  assumes "x \<noteq> 0"
  shows "2 powi exponent x \<le> \<bar>x\<bar> \<and> \<bar>x\<bar> < 2 powi (exponent x + 1)"
proof (cases "1 \<le> \<bar>x\<bar>")
  case True
  define n where "n = nat \<lfloor>\<bar>x\<bar>\<rfloor>"
  from True have f: "1 \<le> \<lfloor>\<bar>x\<bar>\<rfloor>" by simp
  then have n: "0 < n" "int n = \<lfloor>\<bar>x\<bar>\<rfloor>" by (simp_all add: n_def)
  from bit_length_bounds [OF n(1)] have b: "2 ^ (bit_length n - 1) \<le> n" "n < 2 ^ bit_length n" by simp_all
  from n(1) have pos: "0 < bit_length n" by (subst bit_length.simps) simp
  have e: "exponent x = int (bit_length n - 1)"
    using True pos by (simp add: exponent_def n_def)
  have e1: "exponent x + 1 = int (bit_length n)"
    using e pos by simp
  have "real n \<le> \<bar>x\<bar>" using n(2) by (metis of_int_floor_le of_int_of_nat_eq)
  moreover have "(2::real) ^ (bit_length n - 1) \<le> real n"
    using b(1) by (metis of_nat_le_iff of_nat_numeral of_nat_power)
  ultimately have "(2::real) ^ (bit_length n - 1) \<le> \<bar>x\<bar>" by linarith
  then have lo: "2 powi exponent x \<le> \<bar>x\<bar>"
    by (simp only: e power_int_of_nat)
  have "Suc n \<le> 2 ^ bit_length n" using b(2) by simp
  then have "real (Suc n) \<le> 2 ^ bit_length n"
    by (metis of_nat_le_iff of_nat_numeral of_nat_power)
  moreover have "\<bar>x\<bar> < real (Suc n)"
    using n(2) by (smt (verit) floor_less_iff of_int_of_nat_eq of_nat_Suc of_int_1 of_int_add)
  ultimately have "\<bar>x\<bar> < (2::real) ^ bit_length n" by linarith
  then have hi: "\<bar>x\<bar> < 2 powi (exponent x + 1)"
    by (simp only: e1 power_int_of_nat)
  from lo hi show ?thesis by simp
next
  case False
  define y where "y = 1 / \<bar>x\<bar>"
  define m where "m = nat (\<lceil>y\<rceil> - 1)"
  from False assms have y1: "1 < y" by (simp add: y_def)
  then have c: "2 \<le> \<lceil>y\<rceil>" by (simp add: le_ceiling_iff)
  then have m: "0 < m" "int m = \<lceil>y\<rceil> - 1" by (simp_all add: m_def)
  from bit_length_bounds [OF m(1)] have b: "2 ^ (bit_length m - 1) \<le> m" "m < 2 ^ bit_length m" by simp_all
  from m(1) have pos: "0 < bit_length m" by (subst bit_length.simps) simp
  have e: "exponent x = - int (bit_length m)"
    using False by (simp add: exponent_def m_def y_def)
  have "Suc m \<le> 2 ^ bit_length m" using b(2) by simp
  then have "real (Suc m) \<le> 2 ^ bit_length m"
    by (metis of_nat_le_iff of_nat_numeral of_nat_power)
  moreover have "y \<le> real (Suc m)"
    using m(2) by (smt (verit) le_of_int_ceiling of_int_of_nat_eq of_nat_Suc of_int_1 of_int_diff)
  ultimately have "y \<le> 2 ^ bit_length m" by linarith
  then have lo: "2 powi exponent x \<le> \<bar>x\<bar>"
    using assms by (simp add: e y_def power_int_minus field_simps)
  have "(2::real) ^ (bit_length m - 1) \<le> real m"
    using b(1) by (metis of_nat_le_iff of_nat_numeral of_nat_power)
  moreover have "real m < y"
    using m(2) by (smt (verit) ceiling_less_iff of_int_of_nat_eq of_int_1 of_int_diff less_ceiling_iff)
  ultimately have yl: "(2::real) ^ (bit_length m - 1) < y" by linarith
  have e1: "exponent x + 1 = - int (bit_length m - 1)" using e pos by simp
  have "1 / (2::real) ^ (bit_length m - 1) = 2 powi (exponent x + 1)"
    by (simp only: e1 power_int_minus power_int_of_nat inverse_eq_divide)
  moreover from yl assms have "\<bar>x\<bar> < 1 / (2::real) ^ (bit_length m - 1)"
    by (simp add: y_def field_simps del: of_nat_diff)
  ultimately have hi: "\<bar>x\<bar> < 2 powi (exponent x + 1)" by simp
  from lo hi show ?thesis by simp
qed

text \<open>A double is a multiple of the spacing, at most half a spacing away.\<close>

lemma round_half_even_near: "\<bar>of_int (round_half_even x) - x\<bar> \<le> 1 / 2"
  by (simp add: round_half_even_def Let_def)

lemma double_near:
  assumes "x \<noteq> 0" and "e = max (exponent x - 52) (- 1074)"
  shows "\<bar>double x - x\<bar> \<le> 2 powi e / 2"
proof -
  have p: "(0::real) < 2 powi e" by simp
  have d: "double x = of_int (round_half_even (x / 2 powi e)) * 2 powi e"
    using assms by (simp add: double_def Let_def)
  have "double x - x = (of_int (round_half_even (x / 2 powi e)) - x / 2 powi e) * 2 powi e"
    using p by (simp add: d field_simps)
  then have "\<bar>double x - x\<bar> = \<bar>of_int (round_half_even (x / 2 powi e)) - x / 2 powi e\<bar> * 2 powi e"
    using p by (simp add: abs_mult)
  also have "\<dots> \<le> 1 / 2 * 2 powi e"
    using round_half_even_near [of "x / 2 powi e"] p by (intro mult_right_mono) simp_all
  finally show ?thesis by simp
qed

lemmas double_eval = double_arith_def double_def exponent_def bit_length_0 bit_length_1
  bit_length_numeral py_round_def round_half_even_def Let_def

section \<open>Subscription costs\<close>

lemma str_inj: "(str a = str b) = (a = b)"
  by (simp add: str_def inj_on_def)

lemma subscriptions_loop_sum:
  "list_all numeric_subscription subs \<Longrightarrow>
   \<exists>services'. subscriptions_loop A subs services mc
                  = Inr (services',
                         foldl (ar_add A) mc (List.map_filter (monthly_equivalent A) subs))"
proof (induction subs arbitrary: services mc)
  case Nil
  show ?case by simp
next
  case (Cons sub subs)
  from Cons.prems have ns: "numeric_subscription sub" and rest: "list_all numeric_subscription subs"
    by simp_all
  from ns obtain kvs where s: "sub = JObj kvs"
    by (auto simp: numeric_subscription_def is_dict_def split: json.splits)
  from ns have num: "num_of (amount_of sub) = Inr (number (amount_of sub))"
    by (auto simp: numeric_subscription_def num_of_def number_def split: json.splits)
  have g1: "dict_get sub (str ''amount'') (JNum 0) = Inr (amount_of sub)"
    by (simp add: s dict_get_def amount_of_def dict_lookup_def)
  have g2: "dict_get sub (str ''billing_cycle'') (JStr (str ''monthly'')) = Inr (cycle_of sub)"
    by (simp add: s dict_get_def cycle_of_def dict_lookup_def)
  have g3: "\<exists>v. dict_get sub k JNull = Inr v" for k
    by (simp add: s dict_get_def)
  obtain v1 v2 v3 where gs: "dict_get sub (str ''service'') JNull = Inr v1"
      "dict_get sub (str ''billing_cycle'') JNull = Inr v2"
      "dict_get sub (str ''next_billing'') JNull = Inr v3"
    using g3 by metis
  let ?info = "JObj [(str ''service'', v1), (str ''amount'', amount_of sub),
                     (str ''billing_cycle'', v2), (str ''next_billing'', v3)]"
  let ?mc = "case monthly_equivalent A sub of None \<Rightarrow> mc | Some c \<Rightarrow> ar_add A mc c"
  from Cons.IH [OF rest, of "services @ [?info]" ?mc]
  obtain services' where
    ih: "subscriptions_loop A subs (services @ [?info]) ?mc
           = Inr (services', foldl (ar_add A) ?mc (List.map_filter (monthly_equivalent A) subs))"
    by blast
  have step: "subscriptions_loop A (sub # subs) services mc
                = subscriptions_loop A subs (services @ [?info]) ?mc"
    by (simp add: gs g1 g2 num monthly_equivalent_def Let_def)
  have fold: "foldl (ar_add A) mc (List.map_filter (monthly_equivalent A) (sub # subs))
                = foldl (ar_add A) ?mc (List.map_filter (monthly_equivalent A) subs)"
    by (simp split: option.splits)
  from ih show ?case by (simp only: step fold) blast
qed

lemma subscription_report:
  assumes "select_truthy (str ''subscription'') data = Inr subs" and "subs \<noteq> []"
    and "list_all numeric_subscription subs"
  shows "\<exists>services.
           analyze_subscriptions A data
             = Inr (JObj [(str ''active_subscriptions'', JNum (real (length subs))),
                          (str ''monthly_recurring_cost'',
                           JNum (ar_round A (monthly_sum A subs) 2)),
                          (str ''services'', JArr services),
                          (str ''total_annual_cost'',
                           JNum (ar_round A (ar_mul A (monthly_sum A subs) 12) 2))])"
proof -
  from subscriptions_loop_sum [OF assms(3), of A "[]" 0] obtain services where
    l: "subscriptions_loop A subs [] 0 = Inr (services, monthly_sum A subs)"
    by (auto simp: monthly_sum_def)
  show ?thesis
    by (simp add: analyze_subscriptions_def assms(1,2) l)
qed


lemma sel1: "select_truthy (str ''subscription'') [sample_subscription a c]
              = Inr [JObj [(str ''service'', JStr (str ''Netflix'')), (str ''amount'', JNum a),
                           (str ''billing_cycle'', JStr (str c))]]"
  by (simp add: sample_subscription_def dict_get_def truthy_def str_inj)

lemma num1: "numeric_subscription (JObj [(str ''service'', JStr (str ''Netflix'')),
                (str ''amount'', JNum a), (str ''billing_cycle'', JStr (str c))])"
  by (simp add: numeric_subscription_def is_dict_def amount_of_def dict_lookup_def str_inj)

lemma sum1: "monthly_sum A [JObj [(str ''service'', JStr (str ''Netflix'')),
                (str ''amount'', JNum a), (str ''billing_cycle'', JStr (str c))]]
            = (if c = ''yearly'' then ar_add A 0 (ar_truediv A a 12)
               else if c = ''monthly'' then ar_add A 0 a
               else if c = ''weekly'' then ar_add A 0 (ar_mul A a (ar_literal A (433 / 100)))
               else 0)"
  by (simp add: monthly_sum_def monthly_equivalent_def cycle_of_def amount_of_def number_def
        dict_lookup_def str_inj)

lemma sample_report:
  "report_key (analyze_subscriptions A [sample_subscription a c]) ''monthly_recurring_cost''
     = Some (JNum (ar_round A (monthly_sum A
                [JObj [(str ''service'', JStr (str ''Netflix'')), (str ''amount'', JNum a),
                       (str ''billing_cycle'', JStr (str c))]]) 2)) \<and>
   report_key (analyze_subscriptions A [sample_subscription a c]) ''total_annual_cost''
     = Some (JNum (ar_round A (ar_mul A (monthly_sum A
                [JObj [(str ''service'', JStr (str ''Netflix'')), (str ''amount'', JNum a),
                       (str ''billing_cycle'', JStr (str c))]]) 12) 2))"
proof -
  from subscription_report [OF sel1, of a c A] obtain services where
    r: "analyze_subscriptions A [sample_subscription a c]
          = Inr (JObj [(str ''active_subscriptions'', JNum (real (length
                         [JObj [(str ''service'', JStr (str ''Netflix'')),
                                (str ''amount'', JNum a),
                                (str ''billing_cycle'', JStr (str c))]]))),
                       (str ''monthly_recurring_cost'',
                        JNum (ar_round A (monthly_sum A
                          [JObj [(str ''service'', JStr (str ''Netflix'')),
                                 (str ''amount'', JNum a),
                                 (str ''billing_cycle'', JStr (str c))]]) 2)),
                       (str ''services'', JArr services),
                       (str ''total_annual_cost'',
                        JNum (ar_round A (ar_mul A (monthly_sum A
                          [JObj [(str ''service'', JStr (str ''Netflix'')),
                                 (str ''amount'', JNum a),
                                 (str ''billing_cycle'', JStr (str c))]]) 12) 2))])"
    using num1 [of a c] by auto
  show ?thesis
    by (simp add: r report_key_def dict_lookup_def str_inj)
qed



section \<open>The report for no insights\<close>

text \<open>
  Claim C5 (fails on the code).  For the empty list the aggregation does not raise,
  and sections such as spending have their zero values; but the subscription section
  it returns has no key \<open>total_annual_cost\<close>, which the default structure of the
  exception handler and the result for a non-empty list both have.  (The health
  score of the empty report is 60, the default structure says 50.)
\<close>

theorem empty_report:
  "insights_body A R now [] \<noteq> Inl e \<and>
   section_key (generate_comprehensive_insights A R now []) ''spending_analysis'' ''total_spending''
     = Some (JNum 0) \<and>
   section_key (generate_comprehensive_insights A R now []) ''spending_analysis''
     ''category_breakdown'' = Some (JObj []) \<and>
   section_key (generate_comprehensive_insights A R now []) ''subscription_analysis''
     ''monthly_recurring_cost'' = Some (JNum 0) \<and>
   section_key (generate_comprehensive_insights A R now []) ''subscription_analysis''
     ''total_annual_cost'' = None \<and>
   section_key (default_insights 0) ''subscription_analysis'' ''total_annual_cost''
     = Some (JNum 0) \<and>
   report_key (analyze_subscriptions double_arith [sample_subscription 120 ''yearly''])
     ''total_annual_cost'' = Some (JNum 120) \<and>
   section_key (generate_comprehensive_insights A R now []) ''financial_health''
     ''financial_health_score'' = Some (JNum 60)"
proof -
  have b: "insights_body A R now [] =
     Inr (JObj [(str ''spending_analysis'', spending_default),
                (str ''income_analysis'', income_default),
                (str ''subscription_analysis'',
                 JObj [(str ''active_subscriptions'', JNum 0),
                       (str ''monthly_recurring_cost'', JNum 0), (str ''services'', JArr [])]),
                (str ''travel_analysis'',
                 JObj [(str ''total_trips'', JNum 0), (str ''preferred_airlines'', JArr []),
                       (str ''preferred_hotels'', JArr [])]),
                (str ''bills_analysis'',
                 JObj [(str ''total_bills'', JNum 0), (str ''monthly_bill_amount'', JNum 0),
                       (str ''utility_breakdown'', JObj [])]),
                (str ''investment_analysis'',
                 JObj [(str ''total_investments'', JNum 0), (str ''platforms'', JArr []),
                       (str ''instruments'', JObj [])]),
                (str ''financial_health'',
                 JObj [(str ''savings_rate'', JNum (ar_round A 0 1)),
                       (str ''subscription_to_spending_ratio'', JNum (ar_round A 0 1)),
                       (str ''financial_health_score'', JNum 60),
                       (str ''monthly_surplus_deficit'', JNum (ar_round A (ar_sub A 0 0) 2))]),
                (str ''summary'',
                 JObj [(str ''total_emails_analyzed'', JNum 0),
                       (str ''financial_emails_found'', JNum 0),
                       (str ''transactions_extracted'', JNum 0),
                       (str ''income_entries_found'', JNum 0),
                       (str ''subscriptions_identified'', JNum 0),
                       (str ''analysis_date'', JStr now)])])"
    by (simp add: insights_body_def analyze_subscriptions_def analyze_travel_def analyze_bills_def
          analyze_investments_def calculate_financial_health_def generate_summary_def
          analyze_spending_def analyze_income_def count_truthy_def spending_default_def
          income_default_def dict_get_def num_of_def health_score_def str_inj Let_def)
  from sample_report [of double_arith 120 "''yearly''"]
  have t: "report_key (analyze_subscriptions double_arith
                         [sample_subscription 120 ''yearly''])
             ''total_annual_cost'' = Some (JNum 120)"
    by (simp add: sum1 double_eval)
  show ?thesis
    by (simp add: generate_comprehensive_insights_def b t section_key_def dict_lookup_def
          default_insights_def spending_default_def str_inj)
qed

end
